theory Spec2Isabelle
  imports Main
begin

section \<open>Values exchanged with the contracts\<close>

text \<open>
  The market operations of \<^verbatim>\<open>src/markets.js\<close> receive loosely typed JavaScript
  values, turn them into contract arguments, and talk to deployed contracts. Addresses
  are hex strings. Amounts are BigNumber values: arbitrary-precision signed integers,
  modelled as \<open>int\<close>, so \<open>add\<close> and \<open>sub\<close> are exact and never wrap.
\<close>

type_synonym address = string

text \<open>What a caller may pass: a number, a string, a BigNumber, a contract handle (an
  object exposing its own address), a plain object of named values, or anything else.\<close>

datatype jsval =
    JNumber int
  | JString string
  | JBigNumber int
  | JContract address
  | JObject "(string \<times> jsval) list"
  | JOther

text \<open>The semantic types of a signature: \<^verbatim>\<open>'address'\<close> is \<open>Address\<close>,
  \<^verbatim>\<open>'uint8'\<close> is \<open>Uint 8\<close>, \<^verbatim>\<open>'uint256'\<close> is \<open>Uint 256\<close>.\<close>

datatype soltype = Address | Uint nat

text \<open>An argument handed to a contract method: a normalized address, a BigNumber, or a
  plain JavaScript number literal (the \<^verbatim>\<open>0\<close> of \<^verbatim>\<open>shortSell\<close>).\<close>

datatype txarg = Addr address | Big int | Num int

text \<open>A value decoded from an event field; \<open>VHandle c a\<close> is a handle of contract type
  \<open>c\<close> at address \<open>a\<close>, and \<open>VUndefined\<close> is what reading an absent field gives.\<close>

datatype evval = VBig int | VAddr address | VHandle string address | VUndefined

datatype error =
    ArgumentError string
  | MissingEventError string
  | TransactionFailure string
  | TypeError

record txLog =
  event :: string
  args :: "(string \<times> evval) list"

record txResult =
  logs :: "txLog list"

section \<open>Network interactions and their trace\<close>

text \<open>
  Every interaction with the chain is recorded: a read-only query (\<open>Call\<close>) or a
  state-changing transaction (\<open>SendTx\<close>), each with its target contract, method
  name and arguments. An operation yields its result, or the error that rejected its
  promise, together with the interactions it performed, in order.
\<close>

datatype action =
    Call address string "txarg list"
  | SendTx address string "txarg list"

type_synonym 'a io = "(error + 'a) \<times> action list"

definition returnIO :: "'a \<Rightarrow> 'a io" where
  "returnIO x = (Inr x, [])"

definition throwIO :: "error \<Rightarrow> 'a io" where
  "throwIO e = (Inl e, [])"

text \<open>\<^verbatim>\<open>await\<close> in sequence: a rejected step rejects the whole operation, and what
  follows it is never run.\<close>

definition bindIO :: "'a io \<Rightarrow> ('a \<Rightarrow> 'b io) \<Rightarrow> 'b io" where
  "bindIO m f =
     (case fst m of
        Inl e \<Rightarrow> (Inl e, snd m)
      | Inr x \<Rightarrow> (fst (f x), snd m @ snd (f x)))"

text \<open>One interaction \<open>a\<close> whose answer from the chain is \<open>r\<close>.\<close>

definition perform :: "action \<Rightarrow> error + 'a \<Rightarrow> 'a io" where
  "perform a r = (r, [a])"

text \<open>
  The \<^verbatim>\<open>this\<close> object of the operations together with the chain behind it: the
  address of the LMSR market maker, the answers of the read-only contract methods the
  operations call, and the result of submitting a transaction. Each answer may be a
  failure of the submission layer. Within one operation every method is called at most
  once, so answers that depend on the arguments alone lose no behaviour. Building a
  handle with \<^verbatim>\<open>at\<close> is local: it performs no interaction, and the handle is
  the address.
\<close>

record gnosis =
  lmsrMarketMaker :: address
  eventContract :: "address \<Rightarrow> error + address"
  collateralToken :: "address \<Rightarrow> error + address"
  outcomeTokens :: "address \<Rightarrow> int \<Rightarrow> error + address"
  calcCost :: "address \<Rightarrow> int \<Rightarrow> int \<Rightarrow> error + int"
  calcProfit :: "address \<Rightarrow> int \<Rightarrow> int \<Rightarrow> error + int"
  calcMarketFee :: "address \<Rightarrow> int \<Rightarrow> error + int"
  sendTransaction :: "address \<Rightarrow> string \<Rightarrow> txarg list \<Rightarrow> error + txResult"

section \<open>Argument Normalizer\<close>

record namedMethod =
  methodName :: string

record web3ArgsOpts = namedMethod +
  functionInputs :: "(string \<times> soltype) list"
  argAliases :: "(string \<times> string) list"

text \<open>Modelled from the spec: the digits of a hex identifier, for the address validation
  of the normalizer (module \<^verbatim>\<open>./utils\<close>, absent from \<^verbatim>\<open>src/\<close>).\<close>

definition isHexDigit :: "char \<Rightarrow> bool" where
  "isHexDigit c = (c \<in> set ''0123456789abcdefABCDEF'')"

text \<open>Modelled from the spec: address validation of the normalizer (module \<^verbatim>\<open>./utils\<close>,
  absent from \<^verbatim>\<open>src/\<close>). An address is a fixed-length hex identifier: \<^verbatim>\<open>0x\<close> and
  forty hex digits.\<close>

definition isAddress :: "string \<Rightarrow> bool" where
  "isAddress s = (length s = 42 \<and> take 2 s = ''0x'' \<and> list_all isHexDigit (drop 2 s))"

text \<open>Modelled from the spec: the decimal digits of a numeric string, read from the left,
  for the normalizer (module \<^verbatim>\<open>./utils\<close>, absent from \<^verbatim>\<open>src/\<close>).\<close>

definition digitValue :: "char \<Rightarrow> nat option" where
  "digitValue c =
     (let n = (of_char c :: nat) in if 48 \<le> n \<and> n \<le> 57 then Some (n - 48) else None)"

text \<open>Modelled from the spec: the number a string of decimal digits denotes, for the
  normalizer (module \<^verbatim>\<open>./utils\<close>, absent from \<^verbatim>\<open>src/\<close>); \<open>None\<close> when a character is
  no digit.\<close>

fun parseDigits :: "string \<Rightarrow> nat \<Rightarrow> nat option" where
  "parseDigits [] acc = Some acc"
| "parseDigits (c # cs) acc =
     (case digitValue c of None \<Rightarrow> None | Some d \<Rightarrow> parseDigits cs (acc * 10 + d))"

text \<open>Modelled from the spec: reading a numeric string (module \<^verbatim>\<open>./utils\<close>, absent from
  \<^verbatim>\<open>src/\<close>): decimal digits, with an optional leading minus sign.\<close>

definition parseNumericString :: "string \<Rightarrow> int option" where
  "parseNumericString s =
     (case s of
        [] \<Rightarrow> None
      | c # cs \<Rightarrow>
          if c = CHR ''-'' then
            (if cs = [] then None else map_option (\<lambda>n. - int n) (parseDigits cs 0))
          else map_option int (parseDigits s 0))"

text \<open>Modelled from the spec: the integer a value denotes (module \<^verbatim>\<open>./utils\<close>, absent
  from \<^verbatim>\<open>src/\<close>): numeric, numeric-string or arbitrary-precision-integer input.\<close>

definition toBigNumber :: "jsval \<Rightarrow> int option" where
  "toBigNumber v =
     (case v of
        JNumber n \<Rightarrow> Some n
      | JBigNumber n \<Rightarrow> Some n
      | JString s \<Rightarrow> parseNumericString s
      | _ \<Rightarrow> None)"

text \<open>Modelled from the spec: coercion of one value to its declared type (module
  \<^verbatim>\<open>./utils\<close>, absent from \<^verbatim>\<open>src/\<close>). An address is a raw identifier string or an object
  exposing its own address; an unsigned integer of \<open>bits\<close> bits is a value denoting an
  integer of that range, normalized to a BigNumber. \<open>None\<close> when the value cannot be
  coerced.\<close>

fun normalizeWeb3Arg :: "soltype \<Rightarrow> jsval \<Rightarrow> txarg option" where
  "normalizeWeb3Arg Address v =
     (case v of
        JString s \<Rightarrow> if isAddress s then Some (Addr s) else None
      | JContract a \<Rightarrow> if isAddress a then Some (Addr a) else None
      | _ \<Rightarrow> None)"
| "normalizeWeb3Arg (Uint bits) v =
     (case toBigNumber v of
        None \<Rightarrow> None
      | Some n \<Rightarrow> if 0 \<le> n \<and> n < 2 ^ bits then Some (Big n) else None)"

text \<open>Modelled from the spec: the normalizer's pass over a signature (module \<^verbatim>\<open>./utils\<close>, absent from \<^verbatim>\<open>src/\<close>): the values, in the signature's order, each coerced to its type;
  \<open>None\<close> as soon as a value is missing or cannot be coerced.\<close>

fun normalizeEach :: "((string \<times> soltype) \<times> jsval option) list \<Rightarrow> txarg list option" where
  "normalizeEach [] = Some []"
| "normalizeEach ((input, v) # rest) =
     (case v of
        None \<Rightarrow> None
      | Some x \<Rightarrow>
          (case normalizeWeb3Arg (snd input) x of
             None \<Rightarrow> None
           | Some a \<Rightarrow>
               (case normalizeEach rest of
                  None \<Rightarrow> None
                | Some as \<Rightarrow> Some (a # as))))"

text \<open>Modelled from the spec: the two shapes of a call to the normalizer (module \<^verbatim>\<open>./utils\<close>, absent from \<^verbatim>\<open>src/\<close>): a call is named when it is a single mapping of named
  values, positional otherwise.\<close>

fun namedCall :: "jsval list \<Rightarrow> (string \<times> jsval) list option" where
  "namedCall [JObject named] = Some named"
| "namedCall _ = None"

text \<open>Modelled from the spec: the alias table of the normalizer (module \<^verbatim>\<open>./utils\<close>, absent from \<^verbatim>\<open>src/\<close>): an external parameter name maps to the signature's name, and
  any other name stays as it is.\<close>

definition resolveAlias :: "(string \<times> string) list \<Rightarrow> string \<Rightarrow> string" where
  "resolveAlias aliases k = (case map_of aliases k of Some k' \<Rightarrow> k' | None \<Rightarrow> k)"

text \<open>Modelled from the spec: a named call with its names resolved through the alias
  table (module \<^verbatim>\<open>./utils\<close>, absent from \<^verbatim>\<open>src/\<close>).\<close>

definition resolveNames :: "(string \<times> string) list \<Rightarrow> (string \<times> jsval) list \<Rightarrow> (string \<times> jsval) list" where
  "resolveNames aliases named = map (\<lambda>kv. (resolveAlias aliases (fst kv), snd kv)) named"

text \<open>Modelled from the spec: \<^verbatim>\<open>normalizeWeb3Args\<close> (module \<^verbatim>\<open>./utils\<close>, absent from
  \<^verbatim>\<open>src/\<close>). Given a call, either an ordered list of positional values or a single
  mapping of named values, and a signature, it produces the ordered list of values
  matching the signature's order and types. It fails with \<open>ArgumentError\<close> when a
  required parameter is missing, a positional list's length differs from the
  signature's, a value cannot be coerced to its declared type, or a named parameter is
  not recognized. The result is the first component of what the source destructures
  with \<^verbatim>\<open>const [[...]] = normalizeWeb3Args(...)\<close>.\<close>

definition normalizeWeb3Args :: "jsval list \<Rightarrow> web3ArgsOpts \<Rightarrow> error + txarg list" where
  "normalizeWeb3Args arguments opts =
     (case namedCall arguments of
        Some named \<Rightarrow>
          (let resolved = resolveNames (argAliases opts) named in
           if \<not> list_all (\<lambda>kv. fst kv \<in> set (map fst (functionInputs opts))) resolved
           then Inl (ArgumentError (methodName opts))
           else
             (case normalizeEach
                     (map (\<lambda>input. (input, map_of resolved (fst input))) (functionInputs opts)) of
                None \<Rightarrow> Inl (ArgumentError (methodName opts))
              | Some methodArgs \<Rightarrow> Inr methodArgs))
      | None \<Rightarrow>
          if length arguments \<noteq> length (functionInputs opts)
          then Inl (ArgumentError (methodName opts))
          else
            (case normalizeEach (zip (functionInputs opts) (map Some arguments)) of
               None \<Rightarrow> Inl (ArgumentError (methodName opts))
             | Some methodArgs \<Rightarrow> Inr methodArgs))"

section \<open>Transaction Dispatcher\<close>

record callDescriptor = namedMethod +
  callerContract :: address
  methodArgs :: "txarg list"
  eventName :: string
  eventArgName :: string

text \<open>Modelled from the spec: the dispatcher's reading of the requested field of a
  decoded event (module \<^verbatim>\<open>./utils\<close>, absent from \<^verbatim>\<open>src/\<close>), as
  \<^verbatim>\<open>log.args[name]\<close> does.\<close>

definition eventArg :: "txLog \<Rightarrow> string \<Rightarrow> evval" where
  "eventArg l name = (case map_of (args l) name of Some v \<Rightarrow> v | None \<Rightarrow> VUndefined)"

text \<open>Modelled from the spec: \<^verbatim>\<open>requireEventFromTXResult\<close> (module \<^verbatim>\<open>./utils\<close>, absent
  from \<^verbatim>\<open>src/\<close>). It scans the receipt's decoded event log for the entries whose
  event name matches the expected one. Exactly one instance of the expected event must
  be present, else the operation fails: with no such entry it fails with
  \<open>MissingEventError\<close> naming the expected event; with exactly one it yields that entry;
  with more than one it fails too. The spec names no error kind of its own for the
  last case, so the model raises the expected-event error there as well.\<close>

definition requireEventFromTXResult :: "txResult \<Rightarrow> string \<Rightarrow> error + txLog" where
  "requireEventFromTXResult result name =
     (case filter (\<lambda>l. event l = name) (logs result) of
        [] \<Rightarrow> Inl (MissingEventError name)
      | [l] \<Rightarrow> Inr l
      | l # l' # _ \<Rightarrow> Inl (MissingEventError name))"

text \<open>Modelled from the spec: \<^verbatim>\<open>sendTransactionAndGetResult\<close> (module \<^verbatim>\<open>./utils\<close>,
  absent from \<^verbatim>\<open>src/\<close>). It submits the method call as a transaction, waits for the
  receipt, requires the expected event there, and returns the requested field of that
  event.\<close>

definition sendTransactionAndGetResult :: "gnosis \<Rightarrow> callDescriptor \<Rightarrow> evval io" where
  "sendTransactionAndGetResult self opts =
     bindIO
       (perform (SendTx (callerContract opts) (methodName opts) (methodArgs opts))
          (sendTransaction self (callerContract opts) (methodName opts) (methodArgs opts)))
       (\<lambda>result.
          case requireEventFromTXResult result (eventName opts) of
            Inl e \<Rightarrow> throwIO e
          | Inr matchingLog \<Rightarrow> returnIO (eventArg matchingLog (eventArgName opts)))"

section \<open>Market operations\<close>

text \<open>The three names the operations destructure from the normalized argument list.
  For their signature the list always has this shape (see \<open>tradeArgs_normalized\<close>).\<close>

fun tradeArgs :: "txarg list \<Rightarrow> (address \<times> int \<times> int) option" where
  "tradeArgs [Addr marketAddress, Big outcomeTokenIndex, Big outcomeTokenCount] =
     Some (marketAddress, outcomeTokenIndex, outcomeTokenCount)"
| "tradeArgs _ = None"

definition buyOutcomeTokens :: "gnosis \<Rightarrow> jsval list \<Rightarrow> evval io" where
  "buyOutcomeTokens self arguments =
     (case normalizeWeb3Args arguments
             \<lparr>methodName = ''buyOutcomeTokens'',
              functionInputs =
                [(''market'', Address),
                 (''outcomeTokenIndex'', Uint 8),
                 (''outcomeTokenCount'', Uint 256)],
              argAliases = []\<rparr> of
        Inl e \<Rightarrow> throwIO e
      | Inr normalized \<Rightarrow>
          (case tradeArgs normalized of
             None \<Rightarrow> throwIO TypeError
           | Some (marketAddress, outcomeTokenIndex, outcomeTokenCount) \<Rightarrow>
               bindIO (perform (Call marketAddress ''eventContract'' [])
                         (eventContract self marketAddress)) (\<lambda>eventAddress.
               bindIO (perform (Call eventAddress ''collateralToken'' [])
                         (collateralToken self eventAddress)) (\<lambda>collateralToken.
               bindIO (perform (Call (lmsrMarketMaker self) ''calcCost''
                                  [Addr marketAddress, Big outcomeTokenIndex, Big outcomeTokenCount])
                         (calcCost self marketAddress outcomeTokenIndex outcomeTokenCount)) (\<lambda>baseCost.
               bindIO (perform (Call marketAddress ''calcMarketFee'' [Big baseCost])
                         (calcMarketFee self marketAddress baseCost)) (\<lambda>fee.
               let cost = baseCost + fee in
               bindIO (perform (SendTx collateralToken ''approve''
                                  [Addr marketAddress, Big outcomeTokenCount])
                         (sendTransaction self collateralToken ''approve''
                            [Addr marketAddress, Big outcomeTokenCount])) (\<lambda>approval.
               case requireEventFromTXResult approval ''Approval'' of
                 Inl e \<Rightarrow> throwIO e
               | Inr _ \<Rightarrow>
                   sendTransactionAndGetResult self
                     \<lparr>methodName = ''buy'',
                      callerContract = marketAddress,
                      methodArgs = [Big outcomeTokenIndex, Big outcomeTokenCount, Big cost],
                      eventName = ''OutcomeTokenPurchase'',
                      eventArgName = ''cost''\<rparr>)))))))"

definition sellOutcomeTokens :: "gnosis \<Rightarrow> jsval list \<Rightarrow> evval io" where
  "sellOutcomeTokens self arguments =
     (case normalizeWeb3Args arguments
             \<lparr>methodName = ''sellOutcomeTokens'',
              functionInputs =
                [(''market'', Address),
                 (''outcomeTokenIndex'', Uint 8),
                 (''outcomeTokenCount'', Uint 256)],
              argAliases = []\<rparr> of
        Inl e \<Rightarrow> throwIO e
      | Inr normalized \<Rightarrow>
          (case tradeArgs normalized of
             None \<Rightarrow> throwIO TypeError
           | Some (marketAddress, outcomeTokenIndex, outcomeTokenCount) \<Rightarrow>
               bindIO (perform (Call marketAddress ''eventContract'' [])
                         (eventContract self marketAddress)) (\<lambda>eventAddress.
               bindIO (perform (Call eventAddress ''outcomeTokens'' [Big outcomeTokenIndex])
                         (outcomeTokens self eventAddress outcomeTokenIndex)) (\<lambda>outcomeToken.
               bindIO (perform (Call (lmsrMarketMaker self) ''calcProfit''
                                  [Addr marketAddress, Big outcomeTokenIndex, Big outcomeTokenCount])
                         (calcProfit self marketAddress outcomeTokenIndex outcomeTokenCount)) (\<lambda>baseProfit.
               bindIO (perform (Call marketAddress ''calcMarketFee'' [Big baseProfit])
                         (calcMarketFee self marketAddress baseProfit)) (\<lambda>fee.
               let minProfit = baseProfit - fee in
               bindIO (perform (SendTx outcomeToken ''approve''
                                  [Addr marketAddress, Big outcomeTokenCount])
                         (sendTransaction self outcomeToken ''approve''
                            [Addr marketAddress, Big outcomeTokenCount])) (\<lambda>approval.
               case requireEventFromTXResult approval ''Approval'' of
                 Inl e \<Rightarrow> throwIO e
               | Inr _ \<Rightarrow>
                   sendTransactionAndGetResult self
                     \<lparr>methodName = ''sell'',
                      callerContract = marketAddress,
                      methodArgs = [Big outcomeTokenIndex, Big outcomeTokenCount, Big minProfit],
                      eventName = ''OutcomeTokenSale'',
                      eventArgName = ''profit''\<rparr>)))))))"

definition shortSellOutcomeTokens :: "gnosis \<Rightarrow> jsval list \<Rightarrow> evval io" where
  "shortSellOutcomeTokens self arguments =
     (case normalizeWeb3Args arguments
             \<lparr>methodName = ''shortSellOutcomeTokens'',
              functionInputs =
                [(''market'', Address),
                 (''outcomeTokenIndex'', Uint 8),
                 (''outcomeTokenCount'', Uint 256)],
              argAliases = []\<rparr> of
        Inl e \<Rightarrow> throwIO e
      | Inr normalized \<Rightarrow>
          (case tradeArgs normalized of
             None \<Rightarrow> throwIO TypeError
           | Some (marketAddress, outcomeTokenIndex, outcomeTokenCount) \<Rightarrow>
               bindIO (perform (Call marketAddress ''eventContract'' [])
                         (eventContract self marketAddress)) (\<lambda>eventAddress.
               bindIO (perform (Call eventAddress ''collateralToken'' [])
                         (collateralToken self eventAddress)) (\<lambda>collateralToken.
               sendTransactionAndGetResult self
                 \<lparr>methodName = ''shortSell'',
                  callerContract = marketAddress,
                  methodArgs = [Big outcomeTokenIndex, Big outcomeTokenCount, Num 0],
                  eventName = ''OutcomeTokenShortSale'',
                  eventArgName = ''cost''\<rparr>))))"

text \<open>Modelled from the spec: the handle \<^verbatim>\<open>wrapWeb3Function\<close> returns (module \<^verbatim>\<open>./utils\<close>, absent from \<^verbatim>\<open>src/\<close>): a handle of contract type \<open>c\<close> at the address a
  decoded event field holds.\<close>

definition contractAt :: "string \<Rightarrow> evval \<Rightarrow> evval" where
  "contractAt c v = (case v of VAddr a \<Rightarrow> VHandle c a | _ \<Rightarrow> VUndefined)"

text \<open>Modelled from the spec: what \<^verbatim>\<open>wrapWeb3Function\<close> (module \<^verbatim>\<open>./utils\<close>, absent
  from \<^verbatim>\<open>src/\<close>) does with the descriptor \<^verbatim>\<open>createMarket\<close> gives it: normalize
  the arguments against the inputs of the factory's \<^verbatim>\<open>createMarket\<close> method, with
  the alias \<^verbatim>\<open>event\<close> for \<^verbatim>\<open>eventContract\<close>, dispatch the call on the market
  factory, extract the \<^verbatim>\<open>market\<close> field of the \<^verbatim>\<open>MarketCreation\<close> event, and
  return a handle to the created market. The factory's address and the inputs its ABI
  declares are parameters.\<close>

definition createMarket ::
    "gnosis \<Rightarrow> address \<Rightarrow> (string \<times> soltype) list \<Rightarrow> jsval list \<Rightarrow> evval io" where
  "createMarket self marketFactory callerABI arguments =
     (case normalizeWeb3Args arguments
             \<lparr>methodName = ''createMarket'',
              functionInputs = callerABI,
              argAliases = [(''event'', ''eventContract'')]\<rparr> of
        Inl e \<Rightarrow> throwIO e
      | Inr normalized \<Rightarrow>
          bindIO
            (sendTransactionAndGetResult self
               \<lparr>methodName = ''createMarket'',
                callerContract = marketFactory,
                methodArgs = normalized,
                eventName = ''MarketCreation'',
                eventArgName = ''market''\<rparr>)
            (\<lambda>market. returnIO (contractAt ''Market'' market)))"

section \<open>Vocabulary of the properties\<close>

text \<open>The options the three trading operations pass to the normalizer, for the method
  name \<open>name\<close>.\<close>

definition tradeOpts :: "string \<Rightarrow> web3ArgsOpts" where
  "tradeOpts name =
     \<lparr>methodName = name,
      functionInputs =
        [(''market'', Address),
         (''outcomeTokenIndex'', Uint 8),
         (''outcomeTokenCount'', Uint 256)],
      argAliases = []\<rparr>"

text \<open>The transactions of a trace, and its read-only queries, each as target, method
  and arguments, in order.\<close>

fun transactions :: "action list \<Rightarrow> (address \<times> string \<times> txarg list) list" where
  "transactions [] = []"
| "transactions (SendTx t m as # rest) = (t, m, as) # transactions rest"
| "transactions (Call t m as # rest) = transactions rest"

fun queries :: "action list \<Rightarrow> (address \<times> string \<times> txarg list) list" where
  "queries [] = []"
| "queries (Call t m as # rest) = (t, m, as) # queries rest"
| "queries (SendTx t m as # rest) = queries rest"

text \<open>The transactions of a trace that call the method \<open>name\<close>.\<close>

definition submitted :: "string \<Rightarrow> action list \<Rightarrow> (address \<times> txarg list) list" where
  "submitted name trace =
     map (\<lambda>tx. (fst tx, snd (snd tx))) (filter (\<lambda>tx. fst (snd tx) = name) (transactions trace))"

text \<open>A positional call and a named call are equivalent for a signature when the
  positional list is not itself a single mapping, has the signature's length, and the
  mapping holds, under each parameter's name or an alias of it, the value at that
  parameter's position, and nothing under any other name.\<close>

definition equivalentCalls ::
    "web3ArgsOpts \<Rightarrow> jsval list \<Rightarrow> (string \<times> jsval) list \<Rightarrow> bool" where
  "equivalentCalls opts positional named =
     (namedCall positional = None \<and>
      length positional = length (functionInputs opts) \<and>
      list_all (\<lambda>kv. fst kv \<in> set (map fst (functionInputs opts)))
        (resolveNames (argAliases opts) named) \<and>
      list_all
        (\<lambda>j. map_of (resolveNames (argAliases opts) named) (fst (functionInputs opts ! j))
               = Some (positional ! j))
        [0 ..< length (functionInputs opts)])"

text \<open>The interactions of a complete run of each trading operation, in order, for the
  values its queries return.\<close>

definition buySteps ::
    "gnosis \<Rightarrow> address \<Rightarrow> address \<Rightarrow> address \<Rightarrow> int \<Rightarrow> int \<Rightarrow> int \<Rightarrow> int \<Rightarrow> action list" where
  "buySteps self m ev tok i c baseCost fee =
     [Call m ''eventContract'' [],
      Call ev ''collateralToken'' [],
      Call (lmsrMarketMaker self) ''calcCost'' [Addr m, Big i, Big c],
      Call m ''calcMarketFee'' [Big baseCost],
      SendTx tok ''approve'' [Addr m, Big c],
      SendTx m ''buy'' [Big i, Big c, Big (baseCost + fee)]]"

definition sellSteps ::
    "gnosis \<Rightarrow> address \<Rightarrow> address \<Rightarrow> address \<Rightarrow> int \<Rightarrow> int \<Rightarrow> int \<Rightarrow> int \<Rightarrow> action list" where
  "sellSteps self m ev tok i c baseProfit fee =
     [Call m ''eventContract'' [],
      Call ev ''outcomeTokens'' [Big i],
      Call (lmsrMarketMaker self) ''calcProfit'' [Addr m, Big i, Big c],
      Call m ''calcMarketFee'' [Big baseProfit],
      SendTx tok ''approve'' [Addr m, Big c],
      SendTx m ''sell'' [Big i, Big c, Big (baseProfit - fee)]]"

definition shortSellSteps :: "address \<Rightarrow> address \<Rightarrow> int \<Rightarrow> int \<Rightarrow> action list" where
  "shortSellSteps m ev i c =
     [Call m ''eventContract'' [],
      Call ev ''collateralToken'' [],
      SendTx m ''shortSell'' [Big i, Big c, Num 0]]"

section \<open>An example chain\<close>

definition marketA :: address where
  "marketA = ''0x00000000000000000000000000000000000000a1''"

definition eventA :: address where
  "eventA = ''0x00000000000000000000000000000000000000e1''"

definition tokenA :: address where
  "tokenA = ''0x00000000000000000000000000000000000000c1''"

definition makerA :: address where
  "makerA = ''0x00000000000000000000000000000000000000f1''"

definition factoryA :: address where
  "factoryA = ''0x00000000000000000000000000000000000000d1''"

text \<open>The third argument of a trade, as the amount the contract reports back.\<close>

fun thirdAmount :: "txarg list \<Rightarrow> evval" where
  "thirdAmount [_, _, Big x] = VBig x"
| "thirdAmount _ = VBig 3"

text \<open>Receipts of the example chain: each carries the event its method emits, after an
  unrelated \<^verbatim>\<open>Transfer\<close> event.\<close>

definition exampleReceipt :: "string \<Rightarrow> txarg list \<Rightarrow> txResult" where
  "exampleReceipt m as =
     (if m = ''approve'' then
        \<lparr>logs = [\<lparr>event = ''Approval'', args = []\<rparr>]\<rparr>
      else if m = ''buy'' then
        \<lparr>logs = [\<lparr>event = ''Transfer'', args = [(''cost'', VBig 1)]\<rparr>,
                \<lparr>event = ''OutcomeTokenPurchase'', args = [(''cost'', thirdAmount as)]\<rparr>]\<rparr>
      else if m = ''sell'' then
        \<lparr>logs = [\<lparr>event = ''Transfer'', args = [(''profit'', VBig 1)]\<rparr>,
                \<lparr>event = ''OutcomeTokenSale'', args = [(''profit'', thirdAmount as)]\<rparr>]\<rparr>
      else if m = ''shortSell'' then
        \<lparr>logs = [\<lparr>event = ''Transfer'', args = [(''cost'', VBig 1)]\<rparr>,
                \<lparr>event = ''OutcomeTokenShortSale'', args = [(''cost'', thirdAmount as)]\<rparr>]\<rparr>
      else
        \<lparr>logs = [\<lparr>event = ''MarketCreation'', args = [(''market'', VAddr marketA)]\<rparr>]\<rparr>)"

text \<open>The example chain reports the base cost or profit \<open>base\<close> and the fee \<open>fee\<close>. The
  number \<open>k\<close> selects the step that fails: 1 the event lookup, 2 the token lookup, 3 the
  market maker's query, 4 the fee query, 5 the approval transaction, 6 the approval's
  event, 7 the main transaction, 8 the main transaction's event; with \<open>k\<close> 9 the main
  transaction's receipt carries its events twice; any other \<open>k\<close>, none.\<close>

definition exampleChain :: "nat \<Rightarrow> int \<Rightarrow> int \<Rightarrow> gnosis" where
  "exampleChain k base fee =
     \<lparr>lmsrMarketMaker = makerA,
      eventContract = (\<lambda>m. if k = 1 then Inl (TransactionFailure ''eventContract'') else Inr eventA),
      collateralToken = (\<lambda>e. if k = 2 then Inl (TransactionFailure ''collateralToken'') else Inr tokenA),
      outcomeTokens = (\<lambda>e i. if k = 2 then Inl (TransactionFailure ''outcomeTokens'') else Inr tokenA),
      calcCost = (\<lambda>m i c. if k = 3 then Inl (TransactionFailure ''calcCost'') else Inr base),
      calcProfit = (\<lambda>m i c. if k = 3 then Inl (TransactionFailure ''calcProfit'') else Inr base),
      calcMarketFee = (\<lambda>m b. if k = 4 then Inl (TransactionFailure ''calcMarketFee'') else Inr fee),
      sendTransaction = (\<lambda>t m as.
        if m = ''approve'' then
          (if k = 5 then Inl (TransactionFailure ''approve'')
           else if k = 6 then Inr \<lparr>logs = []\<rparr>
           else Inr (exampleReceipt m as))
        else
          (if k = 7 then Inl (TransactionFailure m)
           else if k = 8 then Inr \<lparr>logs = [\<lparr>event = ''Transfer'', args = []\<rparr>]\<rparr>
           else if k = 9 then
             Inr \<lparr>logs = logs (exampleReceipt m as) @ logs (exampleReceipt m as)\<rparr>
           else Inr (exampleReceipt m as)))\<rparr>"

section \<open>Basic facts\<close>

lemma bindIO_perform:
  "bindIO (perform a r) f =
     (case r of Inl e \<Rightarrow> (Inl e, [a]) | Inr x \<Rightarrow> (fst (f x), a # snd (f x)))"
  by (simp add: bindIO_def perform_def split: sum.splits)

lemma bindIO_perform_Inl [simp]: "bindIO (perform a (Inl e)) f = (Inl e, [a])"
  by (simp add: bindIO_perform)

lemma bindIO_perform_Inr [simp]: "bindIO (perform a (Inr x)) f = (fst (f x), a # snd (f x))"
  by (simp add: bindIO_perform)

lemma throwIO_simps [simp]: "fst (throwIO e) = Inl e" "snd (throwIO e) = []"
  by (simp_all add: throwIO_def)

lemma returnIO_simps [simp]: "fst (returnIO x) = Inr x" "snd (returnIO x) = []"
  by (simp_all add: returnIO_def)

lemmas address_defs =
  isAddress_def isHexDigit_def marketA_def eventA_def tokenA_def makerA_def factoryA_def

section \<open>The Argument Normalizer\<close>

lemma normalizeEach_None_iff:
  "normalizeEach xs = None \<longleftrightarrow>
     (\<exists>x \<in> set xs. snd x = None \<or>
        (\<exists>v. snd x = Some v \<and> normalizeWeb3Arg (snd (fst x)) v = None))"
  by (induction xs) (auto split: option.splits)

lemma normalizeWeb3Args_error:
  "normalizeWeb3Args arguments opts = Inl e \<Longrightarrow> e = ArgumentError (methodName opts)"
  by (auto simp: normalizeWeb3Args_def Let_def split: option.splits if_splits)

lemma normalizeEach_named_positional:
  assumes "length vs = length inputs"
    and "\<And>j. j < length inputs \<Longrightarrow> f (inputs ! j) = Some (vs ! j)"
  shows "normalizeEach (map (\<lambda>input. (input, f input)) inputs)
       = normalizeEach (zip inputs (map Some vs))"
proof -
  have "map (\<lambda>input. (input, f input)) inputs = zip inputs (map Some vs)"
    using assms by (intro nth_equalityI) auto
  then show ?thesis by simp
qed

text \<open>
  C6. A positional call and the equivalent named call (the same values under the
  signature's parameter names or their aliases, in any order) are normalized to the
  same result: the same ordered, typed argument list when the values are valid, and
  the same \<open>ArgumentError\<close> otherwise.
\<close>

theorem named_positional_equivalence:
  assumes "equivalentCalls opts positional named"
  shows "normalizeWeb3Args [JObject named] opts = normalizeWeb3Args positional opts"
proof -
  let ?inputs = "functionInputs opts"
  let ?resolved = "resolveNames (argAliases opts) named"
  from assms have pos: "namedCall positional = None"
    and len: "length positional = length ?inputs"
    and known: "list_all (\<lambda>kv. fst kv \<in> set (map fst ?inputs)) ?resolved"
    and vals: "\<And>j. j < length ?inputs \<Longrightarrow>
                 map_of ?resolved (fst (?inputs ! j)) = Some (positional ! j)"
    by (auto simp: equivalentCalls_def list_all_iff)
  have "normalizeEach (map (\<lambda>input. (input, map_of ?resolved (fst input))) ?inputs)
      = normalizeEach (zip ?inputs (map Some positional))"
    using len vals by (intro normalizeEach_named_positional) auto
  then show ?thesis
    using pos len known by (simp add: normalizeWeb3Args_def Let_def)
qed

text \<open>The equivalence at the signature of the trading operations, the named values in
  another order, and at a signature with the alias \<^verbatim>\<open>event\<close>.\<close>

theorem named_positional_equivalence_witness:
  "equivalentCalls (tradeOpts ''buyOutcomeTokens'')
     [JString marketA, JNumber 0, JNumber 10]
     [(''outcomeTokenCount'', JNumber 10), (''market'', JString marketA),
      (''outcomeTokenIndex'', JNumber 0)]
   \<and> normalizeWeb3Args
       [JObject [(''outcomeTokenCount'', JNumber 10), (''market'', JString marketA),
                 (''outcomeTokenIndex'', JNumber 0)]]
       (tradeOpts ''buyOutcomeTokens'')
     = Inr [Addr marketA, Big 0, Big 10]
   \<and> equivalentCalls
       \<lparr>methodName = ''createMarket'',
        functionInputs = [(''eventContract'', Address), (''marketMaker'', Address), (''fee'', Uint 24)],
        argAliases = [(''event'', ''eventContract'')]\<rparr>
       [JContract eventA, JString makerA, JString ''50000'']
       [(''fee'', JString ''50000''), (''event'', JContract eventA), (''marketMaker'', JString makerA)]
   \<and> normalizeWeb3Args
       [JObject [(''fee'', JString ''50000''), (''event'', JContract eventA),
                 (''marketMaker'', JString makerA)]]
       \<lparr>methodName = ''createMarket'',
        functionInputs = [(''eventContract'', Address), (''marketMaker'', Address), (''fee'', Uint 24)],
        argAliases = [(''event'', ''eventContract'')]\<rparr>
     = Inr [Addr eventA, Addr makerA, Big 50000]"
proof -
  let ?named = "[(''outcomeTokenCount'', JNumber 10), (''market'', JString marketA),
                 (''outcomeTokenIndex'', JNumber 0)]"
  let ?opts = "\<lparr>methodName = ''createMarket'',
        functionInputs = [(''eventContract'', Address), (''marketMaker'', Address), (''fee'', Uint 24)],
        argAliases = [(''event'', ''eventContract'')]\<rparr>"
  let ?named' = "[(''fee'', JString ''50000''), (''event'', JContract eventA),
                  (''marketMaker'', JString makerA)]"
  have e: "equivalentCalls (tradeOpts ''buyOutcomeTokens'')
             [JString marketA, JNumber 0, JNumber 10] ?named"
    by (simp add: equivalentCalls_def tradeOpts_def resolveNames_def resolveAlias_def upt_rec)
  have p: "normalizeWeb3Args [JString marketA, JNumber 0, JNumber 10]
             (tradeOpts ''buyOutcomeTokens'') = Inr [Addr marketA, Big 0, Big 10]"
    by (simp add: normalizeWeb3Args_def tradeOpts_def toBigNumber_def address_defs)
  have e': "equivalentCalls ?opts [JContract eventA, JString makerA, JString ''50000''] ?named'"
    by (simp add: equivalentCalls_def resolveNames_def resolveAlias_def upt_rec)
  have p': "normalizeWeb3Args [JContract eventA, JString makerA, JString ''50000''] ?opts
              = Inr [Addr eventA, Addr makerA, Big 50000]"
    by (simp add: normalizeWeb3Args_def toBigNumber_def parseNumericString_def digitValue_def
          address_defs)
  show ?thesis
    using e p e' p' named_positional_equivalence [OF e] named_positional_equivalence [OF e']
    by simp
qed

text \<open>
  C7. The normalizer fails with \<open>ArgumentError\<close>, naming the method, when a named call
  omits a parameter of the signature, when a positional list's length differs from the
  signature's, when a positional or a named value cannot be coerced to its declared
  type, and when a named call supplies a name that is no parameter of the signature
  (after aliases are resolved).
\<close>

theorem normalizer_rejects_malformed_calls:
  "(namedCall arguments = Some named \<and> input \<in> set (functionInputs opts) \<and>
      map_of (resolveNames (argAliases opts) named) (fst input) = None
    \<longrightarrow> normalizeWeb3Args arguments opts = Inl (ArgumentError (methodName opts)))
 \<and> (namedCall arguments = None \<and> length arguments \<noteq> length (functionInputs opts)
    \<longrightarrow> normalizeWeb3Args arguments opts = Inl (ArgumentError (methodName opts)))
 \<and> (namedCall arguments = None \<and> j < length arguments \<and> j < length (functionInputs opts) \<and>
      normalizeWeb3Arg (snd (functionInputs opts ! j)) (arguments ! j) = None
    \<longrightarrow> normalizeWeb3Args arguments opts = Inl (ArgumentError (methodName opts)))
 \<and> (namedCall arguments = Some named \<and> input \<in> set (functionInputs opts) \<and>
      map_of (resolveNames (argAliases opts) named) (fst input) = Some v \<and>
      normalizeWeb3Arg (snd input) v = None
    \<longrightarrow> normalizeWeb3Args arguments opts = Inl (ArgumentError (methodName opts)))
 \<and> (namedCall arguments = Some named \<and> kv \<in> set named \<and>
      resolveAlias (argAliases opts) (fst kv) \<notin> set (map fst (functionInputs opts))
    \<longrightarrow> normalizeWeb3Args arguments opts = Inl (ArgumentError (methodName opts)))"
proof (intro conjI impI)
  let ?resolved = "resolveNames (argAliases opts) named"
  let ?looked = "map (\<lambda>input. (input, map_of ?resolved (fst input))) (functionInputs opts)"
  let ?err = "Inl (ArgumentError (methodName opts)) :: error + txarg list"
  {
    assume a: "namedCall arguments = Some named \<and> input \<in> set (functionInputs opts) \<and>
      map_of ?resolved (fst input) = None"
    then have "normalizeEach ?looked = None"
      unfolding normalizeEach_None_iff by force
    with a show "normalizeWeb3Args arguments opts = ?err"
      by (simp add: normalizeWeb3Args_def Let_def)
  next
    assume "namedCall arguments = None \<and> length arguments \<noteq> length (functionInputs opts)"
    then show "normalizeWeb3Args arguments opts = ?err"
      by (simp add: normalizeWeb3Args_def)
  next
    assume a: "namedCall arguments = None \<and> j < length arguments \<and>
      j < length (functionInputs opts) \<and>
      normalizeWeb3Arg (snd (functionInputs opts ! j)) (arguments ! j) = None"
    show "normalizeWeb3Args arguments opts = ?err"
    proof (cases "length arguments = length (functionInputs opts)")
      case True
      let ?z = "zip (functionInputs opts) (map Some arguments)"
      have "?z ! j \<in> set ?z"
        using a True by (intro nth_mem) simp
      moreover have "?z ! j = (functionInputs opts ! j, Some (arguments ! j))"
        using a by simp
      ultimately have "normalizeEach ?z = None"
        unfolding normalizeEach_None_iff using a by force
      with a True show ?thesis
        by (simp add: normalizeWeb3Args_def)
    next
      case False
      with a show ?thesis
        by (simp add: normalizeWeb3Args_def)
    qed
  next
    assume a: "namedCall arguments = Some named \<and> input \<in> set (functionInputs opts) \<and>
      map_of ?resolved (fst input) = Some v \<and> normalizeWeb3Arg (snd input) v = None"
    then have "normalizeEach ?looked = None"
      unfolding normalizeEach_None_iff by force
    with a show "normalizeWeb3Args arguments opts = ?err"
      by (simp add: normalizeWeb3Args_def Let_def)
  next
    assume a: "namedCall arguments = Some named \<and> kv \<in> set named \<and>
      resolveAlias (argAliases opts) (fst kv) \<notin> set (map fst (functionInputs opts))"
    then have "\<not> list_all (\<lambda>kv. fst kv \<in> set (map fst (functionInputs opts))) ?resolved"
      by (force simp: list_all_iff resolveNames_def)
    with a show "normalizeWeb3Args arguments opts = ?err"
      by (simp add: normalizeWeb3Args_def Let_def)
  }
qed

text \<open>Each of the five failures at the signature \<^verbatim>\<open>sellOutcomeTokens\<close> declares: a
  mapping without \<^verbatim>\<open>outcomeTokenCount\<close>, two positional values for three parameters,
  a market that is no address, a count that is no number, and an extra name
  \<^verbatim>\<open>price\<close>.\<close>

theorem normalizer_rejects_malformed_calls_witness:
  "normalizeWeb3Args
     [JObject [(''market'', JString marketA), (''outcomeTokenIndex'', JNumber 0)]]
     (tradeOpts ''sellOutcomeTokens'') = Inl (ArgumentError ''sellOutcomeTokens'')
 \<and> normalizeWeb3Args [JString marketA, JNumber 0]
     (tradeOpts ''sellOutcomeTokens'') = Inl (ArgumentError ''sellOutcomeTokens'')
 \<and> normalizeWeb3Args [JString ''market'', JNumber 0, JNumber 10]
     (tradeOpts ''sellOutcomeTokens'') = Inl (ArgumentError ''sellOutcomeTokens'')
 \<and> normalizeWeb3Args
     [JObject [(''market'', JString marketA), (''outcomeTokenIndex'', JNumber 0),
               (''outcomeTokenCount'', JOther)]]
     (tradeOpts ''sellOutcomeTokens'') = Inl (ArgumentError ''sellOutcomeTokens'')
 \<and> normalizeWeb3Args
     [JObject [(''market'', JString marketA), (''outcomeTokenIndex'', JNumber 0),
               (''outcomeTokenCount'', JNumber 10), (''price'', JNumber 1)]]
     (tradeOpts ''sellOutcomeTokens'') = Inl (ArgumentError ''sellOutcomeTokens'')"
  using
    normalizer_rejects_malformed_calls
      [where arguments = "[JObject [(''market'', JString marketA), (''outcomeTokenIndex'', JNumber 0)]]"
         and named = "[(''market'', JString marketA), (''outcomeTokenIndex'', JNumber 0)]"
         and input = "(''outcomeTokenCount'', Uint 256)"
         and opts = "tradeOpts ''sellOutcomeTokens''"]
    normalizer_rejects_malformed_calls
      [where arguments = "[JString marketA, JNumber 0]"
         and opts = "tradeOpts ''sellOutcomeTokens''"]
    normalizer_rejects_malformed_calls
      [where arguments = "[JString ''market'', JNumber 0, JNumber 10]" and j = 0
         and opts = "tradeOpts ''sellOutcomeTokens''"]
    normalizer_rejects_malformed_calls
      [where arguments = "[JObject [(''market'', JString marketA), (''outcomeTokenIndex'', JNumber 0),
               (''outcomeTokenCount'', JOther)]]"
         and named = "[(''market'', JString marketA), (''outcomeTokenIndex'', JNumber 0),
               (''outcomeTokenCount'', JOther)]"
         and input = "(''outcomeTokenCount'', Uint 256)" and v = JOther
         and opts = "tradeOpts ''sellOutcomeTokens''"]
    normalizer_rejects_malformed_calls
      [where arguments = "[JObject [(''market'', JString marketA), (''outcomeTokenIndex'', JNumber 0),
               (''outcomeTokenCount'', JNumber 10), (''price'', JNumber 1)]]"
         and named = "[(''market'', JString marketA), (''outcomeTokenIndex'', JNumber 0),
               (''outcomeTokenCount'', JNumber 10), (''price'', JNumber 1)]"
         and kv = "(''price'', JNumber 1)"
         and opts = "tradeOpts ''sellOutcomeTokens''"]
  by (simp add: tradeOpts_def resolveNames_def resolveAlias_def toBigNumber_def isAddress_def)

section \<open>The Transaction Dispatcher\<close>

lemma sendTransactionAndGetResult_Inl:
  "sendTransaction self (callerContract opts) (methodName opts) (methodArgs opts) = Inl e \<Longrightarrow>
   sendTransactionAndGetResult self opts
     = (Inl e, [SendTx (callerContract opts) (methodName opts) (methodArgs opts)])"
  by (simp add: sendTransactionAndGetResult_def)

lemma sendTransactionAndGetResult_Inr:
  "sendTransaction self (callerContract opts) (methodName opts) (methodArgs opts) = Inr receipt \<Longrightarrow>
   sendTransactionAndGetResult self opts
     = ((case requireEventFromTXResult receipt (eventName opts) of
           Inl e \<Rightarrow> Inl e
         | Inr l \<Rightarrow> Inr (eventArg l (eventArgName opts))),
        [SendTx (callerContract opts) (methodName opts) (methodArgs opts)])"
  by (simp add: sendTransactionAndGetResult_def split: sum.splits)

lemma snd_sendTransactionAndGetResult:
  "snd (sendTransactionAndGetResult self opts)
     = [SendTx (callerContract opts) (methodName opts) (methodArgs opts)]"
  by (cases "sendTransaction self (callerContract opts) (methodName opts) (methodArgs opts)")
     (simp_all add: sendTransactionAndGetResult_Inl sendTransactionAndGetResult_Inr)

text \<open>
  C4, as the dispatcher of the spec has it. Once the transaction has a receipt, the
  dispatcher returns the requested field of an event exactly when the receipt's log
  holds exactly one event with the expected name, and the value is that event's field.
  When no event has that name it fails with \<open>MissingEventError\<close> naming the expected
  event; when more than one has it, it fails as well. A returned value always comes
  from an event with the expected name, and two receipts with the same events of that
  name give the same result, so events with other names never match and never matter.
\<close>

theorem dispatcher_returns_field_of_single_expected_event:
  assumes "sendTransaction self (callerContract opts) (methodName opts) (methodArgs opts)
             = Inr receipt"
  shows "((\<exists>v. fst (sendTransactionAndGetResult self opts) = Inr v)
            \<longleftrightarrow> (\<exists>l. filter (\<lambda>l. event l = eventName opts) (logs receipt) = [l]))
       \<and> (\<forall>l. filter (\<lambda>l. event l = eventName opts) (logs receipt) = [l] \<longrightarrow>
            fst (sendTransactionAndGetResult self opts)
              = Inr (eventArg l (eventArgName opts)))
       \<and> ((\<forall>l \<in> set (logs receipt). event l \<noteq> eventName opts) \<longrightarrow>
            fst (sendTransactionAndGetResult self opts)
              = Inl (MissingEventError (eventName opts)))
       \<and> (1 < length (filter (\<lambda>l. event l = eventName opts) (logs receipt)) \<longrightarrow>
            isl (fst (sendTransactionAndGetResult self opts)))
       \<and> (\<forall>v. fst (sendTransactionAndGetResult self opts) = Inr v \<longrightarrow>
            (\<exists>l \<in> set (logs receipt).
               event l = eventName opts \<and> v = eventArg l (eventArgName opts)))
       \<and> (\<forall>self' receipt'.
            sendTransaction self' (callerContract opts) (methodName opts) (methodArgs opts)
              = Inr receipt' \<and>
            filter (\<lambda>l. event l = eventName opts) (logs receipt')
              = filter (\<lambda>l. event l = eventName opts) (logs receipt) \<longrightarrow>
            fst (sendTransactionAndGetResult self' opts)
              = fst (sendTransactionAndGetResult self opts))"
proof -
  let ?P = "\<lambda>l. event l = eventName opts"
  let ?R = "fst (sendTransactionAndGetResult self opts)"
  have r: "?R = (case requireEventFromTXResult receipt (eventName opts) of
                   Inl e \<Rightarrow> Inl e
                 | Inr l \<Rightarrow> Inr (eventArg l (eventArgName opts)))"
    using assms by (simp add: sendTransactionAndGetResult_Inr)
  have single: "\<forall>l. filter ?P (logs receipt) = [l] \<longrightarrow> ?R = Inr (eventArg l (eventArgName opts))"
    unfolding r by (simp add: requireEventFromTXResult_def)
  have exactly: "(\<exists>v. ?R = Inr v) \<longleftrightarrow> (\<exists>l. filter ?P (logs receipt) = [l])"
    unfolding r by (auto simp: requireEventFromTXResult_def split: list.splits)
  have absent: "(\<forall>l \<in> set (logs receipt). event l \<noteq> eventName opts) \<longrightarrow>
                  ?R = Inl (MissingEventError (eventName opts))"
  proof
    assume "\<forall>l \<in> set (logs receipt). event l \<noteq> eventName opts"
    then have "filter ?P (logs receipt) = []"
      by (simp add: filter_empty_conv)
    then show "?R = Inl (MissingEventError (eventName opts))"
      unfolding r by (simp add: requireEventFromTXResult_def)
  qed
  have several: "1 < length (filter ?P (logs receipt)) \<longrightarrow> isl ?R"
    unfolding r by (auto simp: requireEventFromTXResult_def split: list.splits)
  have origin: "\<forall>v. ?R = Inr v \<longrightarrow>
                  (\<exists>l \<in> set (logs receipt). event l = eventName opts \<and>
                     v = eventArg l (eventArgName opts))"
  proof (intro allI impI)
    fix v
    assume v: "?R = Inr v"
    with exactly obtain l where l: "filter ?P (logs receipt) = [l]"
      by blast
    then have "l \<in> set (filter ?P (logs receipt))"
      by simp
    then have "l \<in> set (logs receipt)" and "event l = eventName opts"
      by simp_all
    moreover from single l v have "v = eventArg l (eventArgName opts)"
      by simp
    ultimately show "\<exists>l \<in> set (logs receipt). event l = eventName opts \<and>
                       v = eventArg l (eventArgName opts)"
      by blast
  qed
  have same: "\<forall>self' receipt'.
            sendTransaction self' (callerContract opts) (methodName opts) (methodArgs opts)
              = Inr receipt' \<and>
            filter ?P (logs receipt') = filter ?P (logs receipt) \<longrightarrow>
            fst (sendTransactionAndGetResult self' opts) = ?R"
    unfolding r
    by (simp add: sendTransactionAndGetResult_Inr requireEventFromTXResult_def)
  show ?thesis
    by (intro conjI single absent several origin same) (rule exactly)
qed

text \<open>A \<^verbatim>\<open>buy\<close> whose receipt holds a \<^verbatim>\<open>Transfer\<close> event with a \<^verbatim>\<open>cost\<close> field of
  its own before the one purchase event returns the purchase's cost; a receipt with the
  \<^verbatim>\<open>Transfer\<close> event alone is a missing event; a receipt with two purchase events
  fails.\<close>

theorem dispatcher_returns_field_of_single_expected_event_witness:
  "fst (sendTransactionAndGetResult (exampleChain 0 100 5)
          \<lparr>methodName = ''buy'', callerContract = marketA,
           methodArgs = [Big 0, Big 10, Big 105],
           eventName = ''OutcomeTokenPurchase'', eventArgName = ''cost''\<rparr>) = Inr (VBig 105)
   \<and> fst (sendTransactionAndGetResult (exampleChain 8 100 5)
          \<lparr>methodName = ''buy'', callerContract = marketA,
           methodArgs = [Big 0, Big 10, Big 105],
           eventName = ''OutcomeTokenPurchase'', eventArgName = ''cost''\<rparr>)
       = Inl (MissingEventError ''OutcomeTokenPurchase'')
   \<and> isl (fst (sendTransactionAndGetResult (exampleChain 9 100 5)
          \<lparr>methodName = ''buy'', callerContract = marketA,
           methodArgs = [Big 0, Big 10, Big 105],
           eventName = ''OutcomeTokenPurchase'', eventArgName = ''cost''\<rparr>))"
proof -
  let ?buy = "\<lparr>methodName = ''buy'', callerContract = marketA,
               methodArgs = [Big 0, Big 10, Big 105],
               eventName = ''OutcomeTokenPurchase'', eventArgName = ''cost''\<rparr>"
  let ?purchase = "\<lparr>event = ''OutcomeTokenPurchase'', args = [(''cost'', VBig 105)]\<rparr>"
  let ?twice = "\<lparr>logs = logs (exampleReceipt ''buy'' [Big 0, Big 10, Big 105]) @
                         logs (exampleReceipt ''buy'' [Big 0, Big 10, Big 105])\<rparr>"
  have sent: "sendTransaction (exampleChain 0 100 5)
                (callerContract ?buy) (methodName ?buy) (methodArgs ?buy)
              = Inr (exampleReceipt ''buy'' [Big 0, Big 10, Big 105])"
    by (simp add: exampleChain_def)
  have sent': "sendTransaction (exampleChain 8 100 5)
                 (callerContract ?buy) (methodName ?buy) (methodArgs ?buy)
               = Inr \<lparr>logs = [\<lparr>event = ''Transfer'', args = []\<rparr>]\<rparr>"
    by (simp add: exampleChain_def)
  have sent'': "sendTransaction (exampleChain 9 100 5)
                  (callerContract ?buy) (methodName ?buy) (methodArgs ?buy)
                = Inr ?twice"
    by (simp add: exampleChain_def)
  have one: "filter (\<lambda>l. event l = eventName ?buy)
               (logs (exampleReceipt ''buy'' [Big 0, Big 10, Big 105])) = [?purchase]"
    by (simp add: exampleReceipt_def)
  have none: "\<forall>l \<in> set (logs \<lparr>logs = [\<lparr>event = ''Transfer'', args = []\<rparr>]\<rparr>).
                event l \<noteq> eventName ?buy"
    by simp
  have two: "1 < length (filter (\<lambda>l. event l = eventName ?buy) (logs ?twice))"
    by (simp add: exampleReceipt_def)
  have found: "fst (sendTransactionAndGetResult (exampleChain 0 100 5) ?buy) = Inr (VBig 105)"
    using dispatcher_returns_field_of_single_expected_event
            [OF sent, THEN conjunct2, THEN conjunct1, rule_format, OF one]
    by (simp add: eventArg_def)
  have missing: "fst (sendTransactionAndGetResult (exampleChain 8 100 5) ?buy)
                   = Inl (MissingEventError ''OutcomeTokenPurchase'')"
    using dispatcher_returns_field_of_single_expected_event
            [OF sent', THEN conjunct2, THEN conjunct2, THEN conjunct1, THEN mp, OF none]
    by simp
  have twice: "isl (fst (sendTransactionAndGetResult (exampleChain 9 100 5) ?buy))"
    by (rule dispatcher_returns_field_of_single_expected_event
               [OF sent'', THEN conjunct2, THEN conjunct2, THEN conjunct2, THEN conjunct1,
                rule_format, OF two])
  from found missing twice show ?thesis
    by (intro conjI)
qed

text \<open>
  C4, as stated, fails on a receipt that holds the expected event twice: an event with
  the expected name is present, and the dispatcher does not return its field but fails.
\<close>

theorem dispatcher_two_expected_events_counterexample:
  "sendTransaction (exampleChain 9 100 5) marketA ''buy'' [Big 0, Big 10, Big 105]
     = Inr \<lparr>logs =
         [\<lparr>event = ''Transfer'', args = [(''cost'', VBig 1)]\<rparr>,
          \<lparr>event = ''OutcomeTokenPurchase'', args = [(''cost'', VBig 105)]\<rparr>,
          \<lparr>event = ''Transfer'', args = [(''cost'', VBig 1)]\<rparr>,
          \<lparr>event = ''OutcomeTokenPurchase'', args = [(''cost'', VBig 105)]\<rparr>]\<rparr>
 \<and> sendTransactionAndGetResult (exampleChain 9 100 5)
       \<lparr>methodName = ''buy'', callerContract = marketA,
        methodArgs = [Big 0, Big 10, Big 105],
        eventName = ''OutcomeTokenPurchase'', eventArgName = ''cost''\<rparr>
     = (Inl (MissingEventError ''OutcomeTokenPurchase''),
        [SendTx marketA ''buy'' [Big 0, Big 10, Big 105]])"
  by (simp add: sendTransactionAndGetResult_def requireEventFromTXResult_def exampleChain_def
        exampleReceipt_def)

section \<open>The market operations\<close>

lemma submitted_simps [simp]:
  "submitted name [] = []"
  "submitted name (Call t m as # rest) = submitted name rest"
  "submitted name (SendTx t m as # rest) =
     (if m = name then (t, as) # submitted name rest else submitted name rest)"
  by (simp_all add: submitted_def)

lemma resolveNames_no_aliases [simp]: "resolveNames [] named = named"
  by (simp add: resolveNames_def resolveAlias_def)

lemma normalizeWeb3Arg_Address:
  "normalizeWeb3Arg Address v = Some a \<Longrightarrow> \<exists>s. a = Addr s \<and> isAddress s"
  by (auto split: jsval.splits if_splits)

lemma normalizeWeb3Arg_Uint:
  "normalizeWeb3Arg (Uint bits) v = Some a \<Longrightarrow> \<exists>n. a = Big n \<and> 0 \<le> n \<and> n < 2 ^ bits"
  by (auto split: option.splits if_splits)

lemma normalizeEach_trade:
  assumes "normalizeEach [((n1, Address), v1), ((n2, Uint 8), v2), ((n3, Uint 256), v3)]
             = Some normalized"
  shows "\<exists>m i c. normalized = [Addr m, Big i, Big c] \<and> isAddress m \<and>
           0 \<le> i \<and> i < 2 ^ 8 \<and> 0 \<le> c \<and> c < 2 ^ 256"
proof -
  from assms obtain x1 x2 x3 a1 a2 a3 where
      "normalizeWeb3Arg Address x1 = Some a1" "normalizeWeb3Arg (Uint 8) x2 = Some a2"
      "normalizeWeb3Arg (Uint 256) x3 = Some a3" "normalized = [a1, a2, a3]"
    by (auto simp del: normalizeWeb3Arg.simps split: option.splits)
  then show ?thesis
    by (auto simp del: normalizeWeb3Arg.simps
          dest!: normalizeWeb3Arg_Address normalizeWeb3Arg_Uint)
qed

text \<open>What the trading operations destructure is always a market address, an index of
  eight bits and a count of 256 bits, so their \<open>TypeError\<close> branch is never taken.\<close>

lemma tradeArgs_normalized:
  assumes "normalizeWeb3Args arguments (tradeOpts name) = Inr normalized"
  shows "\<exists>m i c. tradeArgs normalized = Some (m, i, c) \<and> isAddress m \<and>
           0 \<le> i \<and> i \<le> 255 \<and> 0 \<le> c \<and> c < 2 ^ 256"
proof -
  have "\<exists>m i c. normalized = [Addr m, Big i, Big c] \<and> isAddress m \<and>
           0 \<le> i \<and> i < 2 ^ 8 \<and> 0 \<le> c \<and> c < 2 ^ 256"
  proof (cases "namedCall arguments")
    case (Some named)
    with assms have "normalizeEach
        [((''market'', Address), map_of named ''market''),
         ((''outcomeTokenIndex'', Uint 8), map_of named ''outcomeTokenIndex''),
         ((''outcomeTokenCount'', Uint 256), map_of named ''outcomeTokenCount'')]
        = Some normalized"
      by (auto simp: normalizeWeb3Args_def tradeOpts_def Let_def
            simp del: normalizeEach.simps split: if_splits option.splits)
    then show ?thesis
      by (rule normalizeEach_trade)
  next
    case None
    with assms obtain x y z where "arguments = [x, y, z]"
      by (auto simp: normalizeWeb3Args_def tradeOpts_def length_Suc_conv numeral_3_eq_3
            split: if_splits)
    with assms None have "normalizeEach
        [((''market'', Address), Some x),
         ((''outcomeTokenIndex'', Uint 8), Some y),
         ((''outcomeTokenCount'', Uint 256), Some z)]
        = Some normalized"
      by (auto simp: normalizeWeb3Args_def tradeOpts_def
            simp del: normalizeEach.simps split: if_splits option.splits)
    then show ?thesis
      by (rule normalizeEach_trade)
  qed
  then show ?thesis
    by auto
qed

lemma example_call_normalized:
  "normalizeWeb3Args [JString marketA, JNumber 0, JNumber 10] (tradeOpts name)
     = Inr [Addr marketA, Big 0, Big 10]"
  by (simp add: normalizeWeb3Args_def tradeOpts_def toBigNumber_def address_defs)

lemma example_call_rejected:
  "normalizeWeb3Args [JString marketA, JNumber 256, JNumber 10] (tradeOpts name)
     = Inl (ArgumentError name)"
  by (simp add: normalizeWeb3Args_def tradeOpts_def toBigNumber_def address_defs)

lemma example_approval:
  "requireEventFromTXResult (exampleReceipt ''approve'' as) ''Approval''
     = Inr \<lparr>event = ''Approval'', args = []\<rparr>"
  by (simp add: requireEventFromTXResult_def exampleReceipt_def)

lemma buy_rejects_malformed:
  "normalizeWeb3Args arguments (tradeOpts ''buyOutcomeTokens'') = Inl e \<Longrightarrow>
   buyOutcomeTokens self arguments = (Inl e, [])"
  by (simp add: buyOutcomeTokens_def tradeOpts_def throwIO_def)

lemma sell_rejects_malformed:
  "normalizeWeb3Args arguments (tradeOpts ''sellOutcomeTokens'') = Inl e \<Longrightarrow>
   sellOutcomeTokens self arguments = (Inl e, [])"
  by (simp add: sellOutcomeTokens_def tradeOpts_def throwIO_def)

lemma shortSell_rejects_malformed:
  "normalizeWeb3Args arguments (tradeOpts ''shortSellOutcomeTokens'') = Inl e \<Longrightarrow>
   shortSellOutcomeTokens self arguments = (Inl e, [])"
  by (simp add: shortSellOutcomeTokens_def tradeOpts_def throwIO_def)

lemma createMarket_rejects_malformed:
  "normalizeWeb3Args arguments
     \<lparr>methodName = ''createMarket'', functionInputs = callerABI,
      argAliases = [(''event'', ''eventContract'')]\<rparr> = Inl e \<Longrightarrow>
   createMarket self marketFactory callerABI arguments = (Inl e, [])"
  by (simp add: createMarket_def throwIO_def)

lemma uint8_out_of_range:
  "(\<forall>n. toBigNumber index = Some n \<longrightarrow> n < 0 \<or> 255 < n) \<Longrightarrow>
   normalizeWeb3Arg (Uint 8) index = None"
  by (auto split: option.splits)

lemma trade_call_rejects_index:
  assumes "arguments = [market, index, count] \<or>
           (arguments = [JObject named] \<and> map_of named ''outcomeTokenIndex'' = Some index)"
    and "normalizeWeb3Arg (Uint 8) index = None"
  shows "normalizeWeb3Args arguments (tradeOpts name) = Inl (ArgumentError name)"
  using assms
  by (auto simp: normalizeWeb3Args_def tradeOpts_def Let_def split: option.splits)

lemma trade_call_accepts:
  assumes "normalizeWeb3Arg Address marketValue = Some (Addr a)"
    and "toBigNumber indexValue = Some n" and "0 \<le> n" and "n \<le> 255"
    and "toBigNumber countValue = Some k" and "0 \<le> k" and "k < 2 ^ 256"
  shows "normalizeWeb3Args [marketValue, indexValue, countValue] (tradeOpts name)
           = Inr [Addr a, Big n, Big k]"
  using assms by (simp add: normalizeWeb3Args_def tradeOpts_def)

lemma buy_first_step:
  assumes "normalizeWeb3Args arguments (tradeOpts ''buyOutcomeTokens'') = Inr [Addr m, Big i, Big c]"
  shows "take 1 (snd (buyOutcomeTokens self arguments)) = [Call m ''eventContract'' []]"
  using assms
  by (simp add: buyOutcomeTokens_def tradeOpts_def bindIO_perform split: sum.splits)

lemma sell_first_step:
  assumes "normalizeWeb3Args arguments (tradeOpts ''sellOutcomeTokens'') = Inr [Addr m, Big i, Big c]"
  shows "take 1 (snd (sellOutcomeTokens self arguments)) = [Call m ''eventContract'' []]"
  using assms
  by (simp add: sellOutcomeTokens_def tradeOpts_def bindIO_perform split: sum.splits)

lemma shortSell_first_step:
  assumes "normalizeWeb3Args arguments (tradeOpts ''shortSellOutcomeTokens'') = Inr [Addr m, Big i, Big c]"
  shows "take 1 (snd (shortSellOutcomeTokens self arguments)) = [Call m ''eventContract'' []]"
  using assms
  by (simp add: shortSellOutcomeTokens_def tradeOpts_def bindIO_perform split: sum.splits)

text \<open>Complete runs on the example chain: buying ten tokens at base cost 100 and fee 5
  submits and returns 105; selling ten tokens at base profit 100 and fee 5 submits and
  returns 95; creating a market returns a handle to it.\<close>

lemma end_to_end_buy:
  "buyOutcomeTokens (exampleChain 0 100 5) [JString marketA, JNumber 0, JNumber 10]
     = (Inr (VBig 105), buySteps (exampleChain 0 100 5) marketA eventA tokenA 0 10 100 5)"
  using example_call_normalized [of "''buyOutcomeTokens''"]
  by (simp add: buyOutcomeTokens_def tradeOpts_def exampleChain_def example_approval
        sendTransactionAndGetResult_def requireEventFromTXResult_def exampleReceipt_def
        eventArg_def buySteps_def Let_def)

lemma end_to_end_sell:
  "sellOutcomeTokens (exampleChain 0 100 5) [JString marketA, JNumber 0, JNumber 10]
     = (Inr (VBig 95), sellSteps (exampleChain 0 100 5) marketA eventA tokenA 0 10 100 5)"
  using example_call_normalized [of "''sellOutcomeTokens''"]
  by (simp add: sellOutcomeTokens_def tradeOpts_def exampleChain_def example_approval
        sendTransactionAndGetResult_def requireEventFromTXResult_def exampleReceipt_def
        eventArg_def sellSteps_def Let_def)

lemma end_to_end_createMarket:
  "createMarket (exampleChain 0 100 5) factoryA
     [(''eventContract'', Address), (''marketMaker'', Address), (''fee'', Uint 24)]
     [JObject [(''event'', JContract eventA), (''marketMaker'', JString makerA),
               (''fee'', JNumber 50000)]]
   = (Inr (VHandle ''Market'' marketA),
      [SendTx factoryA ''createMarket'' [Addr eventA, Addr makerA, Big 50000]])"
  by (simp add: createMarket_def normalizeWeb3Args_def resolveNames_def resolveAlias_def
        toBigNumber_def address_defs exampleChain_def sendTransactionAndGetResult_def
        requireEventFromTXResult_def exampleReceipt_def eventArg_def contractAt_def
        bindIO_def perform_def returnIO_def)

subsection \<open>Buying\<close>

text \<open>
  C2. When the market maker's \<^verbatim>\<open>calcCost\<close> query returns a non-negative base cost and
  the market's \<^verbatim>\<open>calcMarketFee\<close> query on that base cost returns a non-negative fee,
  every \<^verbatim>\<open>buy\<close> transaction that \<^verbatim>\<open>buyOutcomeTokens\<close> submits goes to the market
  with the index, the count and, as third argument, base cost plus fee, the exact
  integer sum; and the transaction is submitted once the lookups and the approval have
  succeeded.
\<close>

theorem buy_submits_base_cost_plus_fee:
  assumes "normalizeWeb3Args arguments (tradeOpts ''buyOutcomeTokens'') = Inr [Addr m, Big i, Big c]"
    and "calcCost self m i c = Inr baseCost"
    and "calcMarketFee self m baseCost = Inr fee"
    and "0 \<le> baseCost" and "0 \<le> fee"
  shows "(\<forall>tx \<in> set (submitted ''buy'' (snd (buyOutcomeTokens self arguments))).
            tx = (m, [Big i, Big c, Big (baseCost + fee)]))
       \<and> (\<forall>ev tok approval l.
            eventContract self m = Inr ev \<and> collateralToken self ev = Inr tok \<and>
            sendTransaction self tok ''approve'' [Addr m, Big c] = Inr approval \<and>
            requireEventFromTXResult approval ''Approval'' = Inr l
            \<longrightarrow> submitted ''buy'' (snd (buyOutcomeTokens self arguments))
                  = [(m, [Big i, Big c, Big (baseCost + fee)])])"
  using assms(1-3)
  by (auto simp: buyOutcomeTokens_def tradeOpts_def bindIO_perform snd_sendTransactionAndGetResult Let_def
      split: sum.splits)

text \<open>
  Base cost 100 and fee 5 for ten tokens: the \<^verbatim>\<open>buy\<close> transaction carries 105.
\<close>

theorem buy_submits_base_cost_plus_fee_witness:
  "submitted ''buy''
     (snd (buyOutcomeTokens (exampleChain 0 100 5) [JString marketA, JNumber 0, JNumber 10]))
   = [(marketA, [Big 0, Big 10, Big 105])]"
proof -
  let ?self = "exampleChain 0 100 5"
  have cost: "calcCost ?self marketA 0 10 = Inr 100"
    by (simp add: exampleChain_def)
  have fee: "calcMarketFee ?self marketA 100 = Inr 5"
    by (simp add: exampleChain_def)
  have nonneg: "(0 :: int) \<le> 100" "(0 :: int) \<le> 5"
    by simp_all
  have rest: "eventContract ?self marketA = Inr eventA \<and>
      collateralToken ?self eventA = Inr tokenA \<and>
      sendTransaction ?self tokenA ''approve'' [Addr marketA, Big 10]
        = Inr (exampleReceipt ''approve'' [Addr marketA, Big 10]) \<and>
      requireEventFromTXResult (exampleReceipt ''approve'' [Addr marketA, Big 10]) ''Approval''
        = Inr \<lparr>event = ''Approval'', args = []\<rparr>"
    by (simp add: exampleChain_def example_approval)
  have "submitted ''buy'' (snd (buyOutcomeTokens ?self [JString marketA, JNumber 0, JNumber 10]))
          = [(marketA, [Big 0, Big 10, Big (100 + 5)])]"
    using buy_submits_base_cost_plus_fee [OF example_call_normalized cost fee nonneg, THEN conjunct2] rest
    by blast
  then show ?thesis by simp
qed

text \<open>
  C3. Every approval transaction that \<^verbatim>\<open>buyOutcomeTokens\<close> submits approves, for the
  market, exactly the normalized \<^verbatim>\<open>outcomeTokenCount\<close>, whatever the computed cost is;
  and it is submitted, on the collateral token, once the lookups and the two pricing
  queries have succeeded.
\<close>

theorem buy_approves_token_count:
  assumes "normalizeWeb3Args arguments (tradeOpts ''buyOutcomeTokens'') = Inr [Addr m, Big i, Big c]"
  shows "(\<forall>tx \<in> set (submitted ''approve'' (snd (buyOutcomeTokens self arguments))).
            snd tx = [Addr m, Big c])
       \<and> (\<forall>ev tok baseCost fee.
            eventContract self m = Inr ev \<and> collateralToken self ev = Inr tok \<and>
            calcCost self m i c = Inr baseCost \<and> calcMarketFee self m baseCost = Inr fee
            \<longrightarrow> submitted ''approve'' (snd (buyOutcomeTokens self arguments))
                  = [(tok, [Addr m, Big c])])"
  using assms
  by (auto simp: buyOutcomeTokens_def tradeOpts_def bindIO_perform snd_sendTransactionAndGetResult Let_def
      split: sum.splits)

text \<open>
  Ten tokens at a cost of 105: the approval is for 10.
\<close>

theorem buy_approves_token_count_witness:
  "submitted ''approve''
     (snd (buyOutcomeTokens (exampleChain 0 100 5) [JString marketA, JNumber 0, JNumber 10]))
   = [(tokenA, [Addr marketA, Big 10])]
   \<and> calcCost (exampleChain 0 100 5) marketA 0 10 = Inr 100
   \<and> calcMarketFee (exampleChain 0 100 5) marketA 100 = Inr 5
   \<and> (10 :: int) < 100 + 5"
proof -
  let ?self = "exampleChain 0 100 5"
  have answers: "eventContract ?self marketA = Inr eventA \<and>
      collateralToken ?self eventA = Inr tokenA \<and>
      calcCost ?self marketA 0 10 = Inr 100 \<and> calcMarketFee ?self marketA 100 = Inr 5"
    by (simp add: exampleChain_def)
  have "submitted ''approve''
          (snd (buyOutcomeTokens ?self [JString marketA, JNumber 0, JNumber 10]))
        = [(tokenA, [Addr marketA, Big 10])]"
    using buy_approves_token_count [OF example_call_normalized, THEN conjunct2] answers
    by blast
  with answers show ?thesis by simp
qed

subsection \<open>Selling\<close>

text \<open>
  C1, as the code has it. \<^verbatim>\<open>sellOutcomeTokens\<close> computes \<^verbatim>\<open>minProfit\<close> as the exact
  signed difference of base profit and fee and does not look at its sign: when the fee
  exceeds the base profit and the lookups and the approval succeed, it submits the
  \<^verbatim>\<open>sell\<close> transaction with the negative difference as third argument, and its
  result is whatever the dispatch of that transaction yields.
\<close>

theorem sell_submits_exact_difference:
  assumes "normalizeWeb3Args arguments (tradeOpts ''sellOutcomeTokens'') = Inr [Addr m, Big i, Big c]"
    and "eventContract self m = Inr ev" and "outcomeTokens self ev i = Inr tok"
    and "calcProfit self m i c = Inr baseProfit"
    and "calcMarketFee self m baseProfit = Inr fee"
    and "baseProfit < fee"
    and "sendTransaction self tok ''approve'' [Addr m, Big c] = Inr approval"
    and "requireEventFromTXResult approval ''Approval'' = Inr l"
  shows "submitted ''sell'' (snd (sellOutcomeTokens self arguments))
           = [(m, [Big i, Big c, Big (baseProfit - fee)])]
       \<and> baseProfit - fee < 0
       \<and> fst (sellOutcomeTokens self arguments)
           = fst (sendTransactionAndGetResult self
                    \<lparr>methodName = ''sell'', callerContract = m,
                     methodArgs = [Big i, Big c, Big (baseProfit - fee)],
                     eventName = ''OutcomeTokenSale'', eventArgName = ''profit''\<rparr>)"
  using assms
  by (simp add: sellOutcomeTokens_def tradeOpts_def snd_sendTransactionAndGetResult Let_def)

text \<open>
  Base profit 5 and fee 7: the \<^verbatim>\<open>sell\<close> transaction carries \<open>- 2\<close>.
\<close>

theorem sell_submits_exact_difference_witness:
  "submitted ''sell''
     (snd (sellOutcomeTokens (exampleChain 0 5 7) [JString marketA, JNumber 0, JNumber 10]))
   = [(marketA, [Big 0, Big 10, Big (- 2)])]
 \<and> fst (sellOutcomeTokens (exampleChain 0 5 7) [JString marketA, JNumber 0, JNumber 10])
   = Inr (VBig (- 2))"
proof -
  let ?self = "exampleChain 0 5 7"
  have a: "eventContract ?self marketA = Inr eventA" "outcomeTokens ?self eventA 0 = Inr tokenA"
       "calcProfit ?self marketA 0 10 = Inr 5" "calcMarketFee ?self marketA 5 = Inr 7"
       "(5 :: int) < 7"
       "sendTransaction ?self tokenA ''approve'' [Addr marketA, Big 10]
          = Inr (exampleReceipt ''approve'' [Addr marketA, Big 10])"
    by (simp_all add: exampleChain_def)
  note t = sell_submits_exact_difference [OF example_call_normalized a example_approval]
  have "submitted ''sell'' (snd (sellOutcomeTokens ?self [JString marketA, JNumber 0, JNumber 10]))
          = [(marketA, [Big 0, Big 10, Big (- 2)])]"
    using t [THEN conjunct1] by simp
  moreover have "fst (sellOutcomeTokens ?self [JString marketA, JNumber 0, JNumber 10])
          = Inr (VBig (- 2))"
    using t [THEN conjunct2, THEN conjunct2]
    by (simp add: sendTransactionAndGetResult_def exampleChain_def exampleReceipt_def
          requireEventFromTXResult_def eventArg_def)
  ultimately show ?thesis
    by (rule conjI)
qed

text \<open>
  C1, as stated, fails: on a chain that reports base profit 5 and fee 7 the operation
  does not fail; it approves, submits \<^verbatim>\<open>sell\<close> with \<^verbatim>\<open>minProfit\<close> \<open>- 2\<close> and
  returns the profit the receipt reports.
\<close>

theorem sell_fee_exceeding_profit_counterexample:
  "calcProfit (exampleChain 0 5 7) marketA 0 10 = Inr 5
 \<and> calcMarketFee (exampleChain 0 5 7) marketA 5 = Inr 7
 \<and> sellOutcomeTokens (exampleChain 0 5 7) [JString marketA, JNumber 0, JNumber 10]
     = (Inr (VBig (- 2)),
        [Call marketA ''eventContract'' [],
         Call eventA ''outcomeTokens'' [Big 0],
         Call makerA ''calcProfit'' [Addr marketA, Big 0, Big 10],
         Call marketA ''calcMarketFee'' [Big 5],
         SendTx tokenA ''approve'' [Addr marketA, Big 10],
         SendTx marketA ''sell'' [Big 0, Big 10, Big (- 2)]])"
  using example_call_normalized [of "''sellOutcomeTokens''"]
  by (simp add: sellOutcomeTokens_def tradeOpts_def exampleChain_def example_approval
        sendTransactionAndGetResult_def requireEventFromTXResult_def exampleReceipt_def
        eventArg_def Let_def)

subsection \<open>Short selling\<close>

text \<open>
  C5. Every transaction \<^verbatim>\<open>shortSellOutcomeTokens\<close> submits is a \<^verbatim>\<open>shortSell\<close> with
  three arguments, the third the literal 0; it never submits an approval and never
  queries \<^verbatim>\<open>calcCost\<close> or \<^verbatim>\<open>calcMarketFee\<close>; and once its arguments are
  normalized and its two lookups have succeeded, the one transaction it submits is
  \<^verbatim>\<open>shortSell\<close> on the market with index, count and 0.
\<close>

theorem shortSell_zero_floor_no_approval_no_pricing:
  "(\<forall>tx \<in> set (transactions (snd (shortSellOutcomeTokens self arguments))).
       fst (snd tx) = ''shortSell'' \<and> length (snd (snd tx)) = 3 \<and> snd (snd tx) ! 2 = Num 0)
 \<and> submitted ''approve'' (snd (shortSellOutcomeTokens self arguments)) = []
 \<and> (\<forall>q \<in> set (queries (snd (shortSellOutcomeTokens self arguments))).
       fst (snd q) \<noteq> ''calcCost'' \<and> fst (snd q) \<noteq> ''calcMarketFee'')
 \<and> (normalizeWeb3Args arguments (tradeOpts ''shortSellOutcomeTokens'') = Inr [Addr m, Big i, Big c] \<and>
      eventContract self m = Inr ev \<and> collateralToken self ev = Inr tok
      \<longrightarrow> transactions (snd (shortSellOutcomeTokens self arguments))
            = [(m, ''shortSell'', [Big i, Big c, Num 0])])"
  by (auto simp: shortSellOutcomeTokens_def tradeOpts_def bindIO_perform
        snd_sendTransactionAndGetResult
      split: sum.splits option.splits)

text \<open>
  A short sale of ten tokens on the example chain.
\<close>

theorem shortSell_zero_floor_no_approval_no_pricing_witness:
  "transactions
     (snd (shortSellOutcomeTokens (exampleChain 0 100 5) [JString marketA, JNumber 0, JNumber 10]))
   = [(marketA, ''shortSell'', [Big 0, Big 10, Num 0])]
 \<and> submitted ''approve''
     (snd (shortSellOutcomeTokens (exampleChain 0 100 5) [JString marketA, JNumber 0, JNumber 10]))
   = []"
proof -
  let ?self = "exampleChain 0 100 5"
  let ?args = "[JString marketA, JNumber 0, JNumber 10]"
  note facts = shortSell_zero_floor_no_approval_no_pricing
                 [where self = ?self and arguments = ?args]
  have lookups: "eventContract ?self marketA = Inr eventA \<and>
                 collateralToken ?self eventA = Inr tokenA"
    by (simp add: exampleChain_def)
  have "transactions (snd (shortSellOutcomeTokens ?self ?args))
          = [(marketA, ''shortSell'', [Big 0, Big 10, Num 0])]"
    using facts [where m = marketA and i = 0 and c = 10 and ev = eventA and tok = tokenA,
                 THEN conjunct2, THEN conjunct2, THEN conjunct2]
      example_call_normalized [of "''shortSellOutcomeTokens''"] lookups
    by blast
  moreover have "submitted ''approve'' (snd (shortSellOutcomeTokens ?self ?args)) = []"
    by (rule facts [THEN conjunct2, THEN conjunct1])
  ultimately show ?thesis
    by (rule conjI)
qed

text \<open>
  C9. \<^verbatim>\<open>shortSellOutcomeTokens\<close> does query the market's event contract and that
  contract's collateral token, and discards what they return: on two chains that answer
  these lookups with any values and treat transactions alike, the submitted
  \<^verbatim>\<open>shortSell\<close> transaction and the operation's result are the same.
\<close>

theorem shortSell_discards_lookups:
  assumes "normalizeWeb3Args arguments (tradeOpts ''shortSellOutcomeTokens'') = Inr [Addr m, Big i, Big c]"
    and "eventContract self m = Inr ev" and "collateralToken self ev = Inr tok"
    and "eventContract self' m = Inr ev'" and "collateralToken self' ev' = Inr tok'"
    and "sendTransaction self' = sendTransaction self"
  shows "queries (snd (shortSellOutcomeTokens self arguments))
           = [(m, ''eventContract'', []), (ev, ''collateralToken'', [])]
       \<and> transactions (snd (shortSellOutcomeTokens self arguments))
           = [(m, ''shortSell'', [Big i, Big c, Num 0])]
       \<and> transactions (snd (shortSellOutcomeTokens self' arguments))
           = transactions (snd (shortSellOutcomeTokens self arguments))
       \<and> fst (shortSellOutcomeTokens self' arguments) = fst (shortSellOutcomeTokens self arguments)"
proof -
  let ?shortSell = "\<lparr>methodName = ''shortSell'', callerContract = m,
                     methodArgs = [Big i, Big c, Num 0],
                     eventName = ''OutcomeTokenShortSale'', eventArgName = ''cost''\<rparr>"
  have trace: "snd (shortSellOutcomeTokens self arguments)
      = [Call m ''eventContract'' [], Call ev ''collateralToken'' [],
         SendTx m ''shortSell'' [Big i, Big c, Num 0]]"
    using assms(1-3)
    by (simp add: shortSellOutcomeTokens_def tradeOpts_def snd_sendTransactionAndGetResult)
  have trace': "snd (shortSellOutcomeTokens self' arguments)
      = [Call m ''eventContract'' [], Call ev' ''collateralToken'' [],
         SendTx m ''shortSell'' [Big i, Big c, Num 0]]"
    using assms(1,4,5)
    by (simp add: shortSellOutcomeTokens_def tradeOpts_def snd_sendTransactionAndGetResult)
  have result: "fst (shortSellOutcomeTokens self arguments)
      = fst (sendTransactionAndGetResult self ?shortSell)"
    using assms(1-3) by (simp add: shortSellOutcomeTokens_def tradeOpts_def)
  have result': "fst (shortSellOutcomeTokens self' arguments)
      = fst (sendTransactionAndGetResult self' ?shortSell)"
    using assms(1,4,5) by (simp add: shortSellOutcomeTokens_def tradeOpts_def)
  have "sendTransactionAndGetResult self' ?shortSell = sendTransactionAndGetResult self ?shortSell"
    using assms(6) by (simp add: sendTransactionAndGetResult_def)
  with trace trace' result result' show ?thesis
    by simp
qed

text \<open>
  The example chain and a chain whose lookups return other addresses.
\<close>

theorem shortSell_discards_lookups_witness:
  "eventContract (exampleChain 0 100 5) marketA = Inr eventA
 \<and> eventContract
      ((exampleChain 0 100 5)\<lparr>eventContract := \<lambda>m. Inr makerA, collateralToken := \<lambda>e. Inr factoryA\<rparr>)
      marketA = Inr makerA
 \<and> transactions
     (snd (shortSellOutcomeTokens
        ((exampleChain 0 100 5)\<lparr>eventContract := \<lambda>m. Inr makerA, collateralToken := \<lambda>e. Inr factoryA\<rparr>)
        [JString marketA, JNumber 0, JNumber 10]))
   = transactions
      (snd (shortSellOutcomeTokens (exampleChain 0 100 5) [JString marketA, JNumber 0, JNumber 10]))
 \<and> fst (shortSellOutcomeTokens
        ((exampleChain 0 100 5)\<lparr>eventContract := \<lambda>m. Inr makerA, collateralToken := \<lambda>e. Inr factoryA\<rparr>)
        [JString marketA, JNumber 0, JNumber 10])
   = fst (shortSellOutcomeTokens (exampleChain 0 100 5) [JString marketA, JNumber 0, JNumber 10])"
proof -
  let ?self = "exampleChain 0 100 5"
  let ?self' = "?self\<lparr>eventContract := \<lambda>m. Inr makerA, collateralToken := \<lambda>e. Inr factoryA\<rparr>"
  have a: "eventContract ?self marketA = Inr eventA" "collateralToken ?self eventA = Inr tokenA"
    by (simp_all add: exampleChain_def)
  have b: "eventContract ?self' marketA = Inr makerA" "collateralToken ?self' makerA = Inr factoryA"
    by simp_all
  have c: "sendTransaction ?self' = sendTransaction ?self"
    by simp
  show ?thesis
    using shortSell_discards_lookups
            [OF example_call_normalized a b c, THEN conjunct2, THEN conjunct2] a(1) b(1)
    by simp
qed

subsection \<open>Argument types and failures\<close>

text \<open>
  C10. In the three trading operations a positional or named index that does not
  denote an integer from 0 to 255 is rejected with \<open>ArgumentError\<close> before any network
  interaction; a market address with an index that denotes an integer from 0 to 255
  and a count that denotes any integer of the unsigned 256-bit range is normalized to
  these values, and each operation goes on to its first query.
\<close>

theorem index_is_uint8_count_is_uint256:
  "((arguments = [market, index, count] \<or>
       (arguments = [JObject named] \<and> map_of named ''outcomeTokenIndex'' = Some index)) \<and>
      (\<forall>n. toBigNumber index = Some n \<longrightarrow> n < 0 \<or> 255 < n)
     \<longrightarrow> buyOutcomeTokens self arguments = (Inl (ArgumentError ''buyOutcomeTokens''), [])
       \<and> sellOutcomeTokens self arguments = (Inl (ArgumentError ''sellOutcomeTokens''), [])
       \<and> shortSellOutcomeTokens self arguments
           = (Inl (ArgumentError ''shortSellOutcomeTokens''), []))
 \<and> (normalizeWeb3Arg Address marketValue = Some (Addr a) \<and>
      toBigNumber indexValue = Some n \<and> 0 \<le> n \<and> n \<le> 255 \<and>
      toBigNumber countValue = Some k \<and> 0 \<le> k \<and> k < 2 ^ 256
     \<longrightarrow> normalizeWeb3Args [marketValue, indexValue, countValue] (tradeOpts name)
           = Inr [Addr a, Big n, Big k]
       \<and> take 1 (snd (buyOutcomeTokens self [marketValue, indexValue, countValue]))
           = [Call a ''eventContract'' []]
       \<and> take 1 (snd (sellOutcomeTokens self [marketValue, indexValue, countValue]))
           = [Call a ''eventContract'' []]
       \<and> take 1 (snd (shortSellOutcomeTokens self [marketValue, indexValue, countValue]))
           = [Call a ''eventContract'' []])"
proof (intro conjI impI)
  assume a: "(arguments = [market, index, count] \<or>
       (arguments = [JObject named] \<and> map_of named ''outcomeTokenIndex'' = Some index)) \<and>
      (\<forall>n. toBigNumber index = Some n \<longrightarrow> n < 0 \<or> 255 < n)"
  then have rejected: "normalizeWeb3Args arguments (tradeOpts name') = Inl (ArgumentError name')"
    for name'
    by (intro trade_call_rejects_index [where index = index and market = market
          and count = count and named = named] uint8_out_of_range) blast+
  show "buyOutcomeTokens self arguments = (Inl (ArgumentError ''buyOutcomeTokens''), [])"
    by (rule buy_rejects_malformed [OF rejected])
  show "sellOutcomeTokens self arguments = (Inl (ArgumentError ''sellOutcomeTokens''), [])"
    by (rule sell_rejects_malformed [OF rejected])
  show "shortSellOutcomeTokens self arguments
          = (Inl (ArgumentError ''shortSellOutcomeTokens''), [])"
    by (rule shortSell_rejects_malformed [OF rejected])
next
  assume a: "normalizeWeb3Arg Address marketValue = Some (Addr a) \<and>
      toBigNumber indexValue = Some n \<and> 0 \<le> n \<and> n \<le> 255 \<and>
      toBigNumber countValue = Some k \<and> 0 \<le> k \<and> k < 2 ^ 256"
  then have accepted:
    "normalizeWeb3Args [marketValue, indexValue, countValue] (tradeOpts name')
       = Inr [Addr a, Big n, Big k]" for name'
    by (intro trade_call_accepts) simp_all
  show "normalizeWeb3Args [marketValue, indexValue, countValue] (tradeOpts name)
           = Inr [Addr a, Big n, Big k]"
    by (rule accepted)
  show "take 1 (snd (buyOutcomeTokens self [marketValue, indexValue, countValue]))
           = [Call a ''eventContract'' []]"
    by (rule buy_first_step [OF accepted])
  show "take 1 (snd (sellOutcomeTokens self [marketValue, indexValue, countValue]))
           = [Call a ''eventContract'' []]"
    by (rule sell_first_step [OF accepted])
  show "take 1 (snd (shortSellOutcomeTokens self [marketValue, indexValue, countValue]))
           = [Call a ''eventContract'' []]"
    by (rule shortSell_first_step [OF accepted])
qed

text \<open>
  Index 256 and index \<^verbatim>\<open>"-1"\<close> are rejected; index 255 with the largest count of
  256 bits is accepted.
\<close>

theorem index_is_uint8_count_is_uint256_witness:
  "buyOutcomeTokens (exampleChain 0 100 5) [JString marketA, JNumber 256, JNumber 10]
     = (Inl (ArgumentError ''buyOutcomeTokens''), [])
 \<and> sellOutcomeTokens (exampleChain 0 100 5)
      [JObject [(''market'', JString marketA), (''outcomeTokenIndex'', JString ''-1''),
                (''outcomeTokenCount'', JNumber 10)]]
     = (Inl (ArgumentError ''sellOutcomeTokens''), [])
 \<and> normalizeWeb3Args [JContract marketA, JString ''255'', JBigNumber (2 ^ 256 - 1)]
      (tradeOpts ''shortSellOutcomeTokens'')
     = Inr [Addr marketA, Big 255, Big (2 ^ 256 - 1)]
 \<and> take 1 (snd (shortSellOutcomeTokens (exampleChain 0 100 5)
                  [JContract marketA, JString ''255'', JBigNumber (2 ^ 256 - 1)]))
     = [Call marketA ''eventContract'' []]"
proof -
  let ?self = "exampleChain 0 100 5"
  let ?named = "[(''market'', JString marketA), (''outcomeTokenIndex'', JString ''-1''),
                 (''outcomeTokenCount'', JNumber 10)]"
  have big: "\<forall>n. toBigNumber (JNumber 256) = Some n \<longrightarrow> n < 0 \<or> 255 < n"
    by (simp add: toBigNumber_def)
  have negative: "\<forall>n. toBigNumber (JString ''-1'') = Some n \<longrightarrow> n < 0 \<or> 255 < n"
    by (simp add: toBigNumber_def parseNumericString_def digitValue_def)
  have positional: "buyOutcomeTokens ?self [JString marketA, JNumber 256, JNumber 10]
     = (Inl (ArgumentError ''buyOutcomeTokens''), [])"
    using index_is_uint8_count_is_uint256
            [where arguments = "[JString marketA, JNumber 256, JNumber 10]"
               and market = "JString marketA" and index = "JNumber 256" and count = "JNumber 10"
               and self = ?self, THEN conjunct1] big
    by blast
  have named: "sellOutcomeTokens ?self [JObject ?named]
     = (Inl (ArgumentError ''sellOutcomeTokens''), [])"
  proof -
    have "map_of ?named ''outcomeTokenIndex'' = Some (JString ''-1'')"
      by simp
    with negative show ?thesis
      using index_is_uint8_count_is_uint256
            [where arguments = "[JObject ?named]" and named = ?named
               and index = "JString ''-1''" and self = ?self, THEN conjunct1]
      by blast
  qed
  have range: "normalizeWeb3Arg Address (JContract marketA) = Some (Addr marketA) \<and>
               toBigNumber (JString ''255'') = Some 255 \<and> (0 :: int) \<le> 255 \<and>
               (255 :: int) \<le> 255 \<and>
               toBigNumber (JBigNumber (2 ^ 256 - 1)) = Some (2 ^ 256 - 1) \<and>
               (0 :: int) \<le> 2 ^ 256 - 1 \<and> (2 ^ 256 - 1 :: int) < 2 ^ 256"
    by (simp add: address_defs toBigNumber_def parseNumericString_def digitValue_def)
  note accepted = index_is_uint8_count_is_uint256
            [where marketValue = "JContract marketA" and indexValue = "JString ''255''"
               and countValue = "JBigNumber (2 ^ 256 - 1)"
               and a = marketA and n = 255 and k = "2 ^ 256 - 1" and self = ?self
               and name = "''shortSellOutcomeTokens''", THEN conjunct2, rule_format, OF range]
  from positional named accepted [THEN conjunct1]
    accepted [THEN conjunct2, THEN conjunct2, THEN conjunct2]
  show ?thesis
    by (intro conjI)
qed

text \<open>
  C8. When the normalizer rejects the arguments of a market operation, the operation
  fails with that \<open>ArgumentError\<close> and has performed no network interaction: no query,
  no approval, no transaction. When a later step fails (a lookup, a pricing query, the
  approval transaction, the approval's event, the main transaction), the operation
  fails with that step's error and has performed exactly the steps up to the failed
  one, none after it.
\<close>

theorem failure_aborts_remaining_steps:
  "(normalizeWeb3Args arguments (tradeOpts ''buyOutcomeTokens'') = Inl err \<longrightarrow>
      err = ArgumentError ''buyOutcomeTokens'' \<and>
      buyOutcomeTokens self arguments = (Inl err, []))
 \<and> (normalizeWeb3Args arguments (tradeOpts ''sellOutcomeTokens'') = Inl err \<longrightarrow>
      err = ArgumentError ''sellOutcomeTokens'' \<and>
      sellOutcomeTokens self arguments = (Inl err, []))
 \<and> (normalizeWeb3Args arguments (tradeOpts ''shortSellOutcomeTokens'') = Inl err \<longrightarrow>
      err = ArgumentError ''shortSellOutcomeTokens'' \<and>
      shortSellOutcomeTokens self arguments = (Inl err, []))
 \<and> (normalizeWeb3Args arguments
       \<lparr>methodName = ''createMarket'', functionInputs = callerABI,
        argAliases = [(''event'', ''eventContract'')]\<rparr> = Inl err \<longrightarrow>
      err = ArgumentError ''createMarket'' \<and>
      createMarket self marketFactory callerABI arguments = (Inl err, []))
 \<and> (normalizeWeb3Args arguments (tradeOpts ''buyOutcomeTokens'') = Inr [Addr m, Big i, Big c] \<longrightarrow>
     (eventContract self m = Inl e \<longrightarrow>
       buyOutcomeTokens self arguments = (Inl e, take 1 (buySteps self m ev tok i c b f)))
  \<and> (eventContract self m = Inr ev \<longrightarrow>
      (collateralToken self ev = Inl e \<longrightarrow>
         buyOutcomeTokens self arguments = (Inl e, take 2 (buySteps self m ev tok i c b f)))
    \<and> (collateralToken self ev = Inr tok \<longrightarrow>
        (calcCost self m i c = Inl e \<longrightarrow>
           buyOutcomeTokens self arguments = (Inl e, take 3 (buySteps self m ev tok i c b f)))
      \<and> (calcCost self m i c = Inr b \<longrightarrow>
          (calcMarketFee self m b = Inl e \<longrightarrow>
             buyOutcomeTokens self arguments = (Inl e, take 4 (buySteps self m ev tok i c b f)))
        \<and> (calcMarketFee self m b = Inr f \<longrightarrow>
            (sendTransaction self tok ''approve'' [Addr m, Big c] = Inl e \<longrightarrow>
               buyOutcomeTokens self arguments = (Inl e, take 5 (buySteps self m ev tok i c b f)))
          \<and> (sendTransaction self tok ''approve'' [Addr m, Big c] = Inr approval \<longrightarrow>
              (requireEventFromTXResult approval ''Approval'' = Inl e \<longrightarrow>
                 buyOutcomeTokens self arguments
                   = (Inl e, take 5 (buySteps self m ev tok i c b f)))
            \<and> (requireEventFromTXResult approval ''Approval'' = Inr l \<longrightarrow>
                (sendTransaction self m ''buy'' [Big i, Big c, Big (b + f)] = Inl e \<longrightarrow>
                   buyOutcomeTokens self arguments
                     = (Inl e, buySteps self m ev tok i c b f)))))))))
 \<and> (normalizeWeb3Args arguments (tradeOpts ''sellOutcomeTokens'') = Inr [Addr m, Big i, Big c] \<longrightarrow>
     (eventContract self m = Inl e \<longrightarrow>
       sellOutcomeTokens self arguments = (Inl e, take 1 (sellSteps self m ev tok i c b f)))
  \<and> (eventContract self m = Inr ev \<longrightarrow>
      (outcomeTokens self ev i = Inl e \<longrightarrow>
         sellOutcomeTokens self arguments = (Inl e, take 2 (sellSteps self m ev tok i c b f)))
    \<and> (outcomeTokens self ev i = Inr tok \<longrightarrow>
        (calcProfit self m i c = Inl e \<longrightarrow>
           sellOutcomeTokens self arguments = (Inl e, take 3 (sellSteps self m ev tok i c b f)))
      \<and> (calcProfit self m i c = Inr b \<longrightarrow>
          (calcMarketFee self m b = Inl e \<longrightarrow>
             sellOutcomeTokens self arguments = (Inl e, take 4 (sellSteps self m ev tok i c b f)))
        \<and> (calcMarketFee self m b = Inr f \<longrightarrow>
            (sendTransaction self tok ''approve'' [Addr m, Big c] = Inl e \<longrightarrow>
               sellOutcomeTokens self arguments = (Inl e, take 5 (sellSteps self m ev tok i c b f)))
          \<and> (sendTransaction self tok ''approve'' [Addr m, Big c] = Inr approval \<longrightarrow>
              (requireEventFromTXResult approval ''Approval'' = Inl e \<longrightarrow>
                 sellOutcomeTokens self arguments
                   = (Inl e, take 5 (sellSteps self m ev tok i c b f)))
            \<and> (requireEventFromTXResult approval ''Approval'' = Inr l \<longrightarrow>
                (sendTransaction self m ''sell'' [Big i, Big c, Big (b - f)] = Inl e \<longrightarrow>
                   sellOutcomeTokens self arguments
                     = (Inl e, sellSteps self m ev tok i c b f)))))))))
 \<and> (normalizeWeb3Args arguments (tradeOpts ''shortSellOutcomeTokens'') = Inr [Addr m, Big i, Big c] \<longrightarrow>
     (eventContract self m = Inl e \<longrightarrow>
       shortSellOutcomeTokens self arguments = (Inl e, take 1 (shortSellSteps m ev i c)))
  \<and> (eventContract self m = Inr ev \<longrightarrow>
      (collateralToken self ev = Inl e \<longrightarrow>
         shortSellOutcomeTokens self arguments = (Inl e, take 2 (shortSellSteps m ev i c)))
    \<and> (collateralToken self ev = Inr tok \<longrightarrow>
        (sendTransaction self m ''shortSell'' [Big i, Big c, Num 0] = Inl e \<longrightarrow>
           shortSellOutcomeTokens self arguments = (Inl e, shortSellSteps m ev i c)))))"
  apply (intro conjI impI)
  subgoal using normalizeWeb3Args_error [of arguments "tradeOpts ''buyOutcomeTokens''" err]
    by (simp add: tradeOpts_def)
  subgoal by (rule buy_rejects_malformed)
  subgoal using normalizeWeb3Args_error [of arguments "tradeOpts ''sellOutcomeTokens''" err]
    by (simp add: tradeOpts_def)
  subgoal by (rule sell_rejects_malformed)
  subgoal using normalizeWeb3Args_error [of arguments "tradeOpts ''shortSellOutcomeTokens''" err]
    by (simp add: tradeOpts_def)
  subgoal by (rule shortSell_rejects_malformed)
  subgoal by (drule normalizeWeb3Args_error) simp
  subgoal by (rule createMarket_rejects_malformed)
  by (simp_all add: buyOutcomeTokens_def sellOutcomeTokens_def shortSellOutcomeTokens_def
        tradeOpts_def buySteps_def sellSteps_def shortSellSteps_def Let_def throwIO_def
        sendTransactionAndGetResult_Inl)

text \<open>
  On the example chain: malformed arguments, a failed lookup, a failed pricing query,
  an approval without its event, a failed token lookup, a failed approval, a failed
  \<^verbatim>\<open>buy\<close> transaction, and a \<^verbatim>\<open>createMarket\<close> call without its market maker.
\<close>

theorem failure_aborts_remaining_steps_witness:
  "buyOutcomeTokens (exampleChain 0 100 5) [JString marketA, JNumber 256, JNumber 10]
     = (Inl (ArgumentError ''buyOutcomeTokens''), [])
 \<and> buyOutcomeTokens (exampleChain 1 100 5) [JString marketA, JNumber 0, JNumber 10]
     = (Inl (TransactionFailure ''eventContract''), [Call marketA ''eventContract'' []])
 \<and> buyOutcomeTokens (exampleChain 3 100 5) [JString marketA, JNumber 0, JNumber 10]
     = (Inl (TransactionFailure ''calcCost''),
        [Call marketA ''eventContract'' [], Call eventA ''collateralToken'' [],
         Call makerA ''calcCost'' [Addr marketA, Big 0, Big 10]])
 \<and> sellOutcomeTokens (exampleChain 6 100 5) [JString marketA, JNumber 0, JNumber 10]
     = (Inl (MissingEventError ''Approval''),
        [Call marketA ''eventContract'' [], Call eventA ''outcomeTokens'' [Big 0],
         Call makerA ''calcProfit'' [Addr marketA, Big 0, Big 10],
         Call marketA ''calcMarketFee'' [Big 100],
         SendTx tokenA ''approve'' [Addr marketA, Big 10]])
 \<and> shortSellOutcomeTokens (exampleChain 2 100 5) [JString marketA, JNumber 0, JNumber 10]
     = (Inl (TransactionFailure ''collateralToken''),
        [Call marketA ''eventContract'' [], Call eventA ''collateralToken'' []])
 \<and> buyOutcomeTokens (exampleChain 5 100 5) [JString marketA, JNumber 0, JNumber 10]
     = (Inl (TransactionFailure ''approve''),
        [Call marketA ''eventContract'' [], Call eventA ''collateralToken'' [],
         Call makerA ''calcCost'' [Addr marketA, Big 0, Big 10],
         Call marketA ''calcMarketFee'' [Big 100],
         SendTx tokenA ''approve'' [Addr marketA, Big 10]])
 \<and> buyOutcomeTokens (exampleChain 7 100 5) [JString marketA, JNumber 0, JNumber 10]
     = (Inl (TransactionFailure ''buy''),
        [Call marketA ''eventContract'' [], Call eventA ''collateralToken'' [],
         Call makerA ''calcCost'' [Addr marketA, Big 0, Big 10],
         Call marketA ''calcMarketFee'' [Big 100],
         SendTx tokenA ''approve'' [Addr marketA, Big 10],
         SendTx marketA ''buy'' [Big 0, Big 10, Big 105]])
 \<and> createMarket (exampleChain 0 100 5) factoryA
      [(''eventContract'', Address), (''marketMaker'', Address), (''fee'', Uint 24)]
      [JObject [(''event'', JContract eventA)]]
     = (Inl (ArgumentError ''createMarket''), [])"
proof -
  let ?args = "[JString marketA, JNumber 0, JNumber 10]"
  let ?abi = "[(''eventContract'', Address), (''marketMaker'', Address), (''fee'', Uint 24)]"
  have malformed: "buyOutcomeTokens (exampleChain 0 100 5) [JString marketA, JNumber 256, JNumber 10]
     = (Inl (ArgumentError ''buyOutcomeTokens''), [])"
    using failure_aborts_remaining_steps
      [where arguments = "[JString marketA, JNumber 256, JNumber 10]"
         and err = "ArgumentError ''buyOutcomeTokens''" and self = "exampleChain 0 100 5",
       THEN conjunct1]
      example_call_rejected [of "''buyOutcomeTokens''"]
    by simp
  note buy = failure_aborts_remaining_steps
      [where arguments = ?args and m = marketA and i = 0 and c = 10 and ev = eventA
         and tok = tokenA and b = 100 and f = 5,
       THEN conjunct2, THEN conjunct2, THEN conjunct2, THEN conjunct2, THEN conjunct1,
       rule_format, OF example_call_normalized]
  note sell = failure_aborts_remaining_steps
      [where arguments = ?args and m = marketA and i = 0 and c = 10 and ev = eventA
         and tok = tokenA and b = 100 and f = 5,
       THEN conjunct2, THEN conjunct2, THEN conjunct2, THEN conjunct2, THEN conjunct2,
       THEN conjunct1, rule_format, OF example_call_normalized]
  note shortSell = failure_aborts_remaining_steps
      [where arguments = ?args and m = marketA and i = 0 and c = 10 and ev = eventA
         and tok = tokenA and b = 100 and f = 5,
       THEN conjunct2, THEN conjunct2, THEN conjunct2, THEN conjunct2, THEN conjunct2,
       THEN conjunct2, rule_format, OF example_call_normalized]
  have lookup: "buyOutcomeTokens (exampleChain 1 100 5) ?args
     = (Inl (TransactionFailure ''eventContract''), [Call marketA ''eventContract'' []])"
    using buy [where self = "exampleChain 1 100 5" and e = "TransactionFailure ''eventContract''",
               THEN conjunct1]
    by (simp add: exampleChain_def buySteps_def)
  have pricing: "buyOutcomeTokens (exampleChain 3 100 5) ?args
     = (Inl (TransactionFailure ''calcCost''),
        [Call marketA ''eventContract'' [], Call eventA ''collateralToken'' [],
         Call makerA ''calcCost'' [Addr marketA, Big 0, Big 10]])"
    using buy [where self = "exampleChain 3 100 5" and e = "TransactionFailure ''calcCost''",
               THEN conjunct2]
    by (simp add: exampleChain_def buySteps_def)
  have approval: "sellOutcomeTokens (exampleChain 6 100 5) ?args
     = (Inl (MissingEventError ''Approval''),
        [Call marketA ''eventContract'' [], Call eventA ''outcomeTokens'' [Big 0],
         Call makerA ''calcProfit'' [Addr marketA, Big 0, Big 10],
         Call marketA ''calcMarketFee'' [Big 100],
         SendTx tokenA ''approve'' [Addr marketA, Big 10]])"
    using sell [where self = "exampleChain 6 100 5" and e = "MissingEventError ''Approval''"
                 and approval = "\<lparr>logs = []\<rparr>", THEN conjunct2]
    by (simp add: exampleChain_def sellSteps_def requireEventFromTXResult_def)
  have token: "shortSellOutcomeTokens (exampleChain 2 100 5) ?args
     = (Inl (TransactionFailure ''collateralToken''),
        [Call marketA ''eventContract'' [], Call eventA ''collateralToken'' []])"
    using shortSell [where self = "exampleChain 2 100 5"
                      and e = "TransactionFailure ''collateralToken''", THEN conjunct2]
    by (simp add: exampleChain_def shortSellSteps_def)
  have approve: "buyOutcomeTokens (exampleChain 5 100 5) ?args
     = (Inl (TransactionFailure ''approve''),
        [Call marketA ''eventContract'' [], Call eventA ''collateralToken'' [],
         Call makerA ''calcCost'' [Addr marketA, Big 0, Big 10],
         Call marketA ''calcMarketFee'' [Big 100],
         SendTx tokenA ''approve'' [Addr marketA, Big 10]])"
    using buy [where self = "exampleChain 5 100 5" and e = "TransactionFailure ''approve''",
               THEN conjunct2]
    by (simp add: exampleChain_def buySteps_def)
  have main: "buyOutcomeTokens (exampleChain 7 100 5) ?args
     = (Inl (TransactionFailure ''buy''),
        [Call marketA ''eventContract'' [], Call eventA ''collateralToken'' [],
         Call makerA ''calcCost'' [Addr marketA, Big 0, Big 10],
         Call marketA ''calcMarketFee'' [Big 100],
         SendTx tokenA ''approve'' [Addr marketA, Big 10],
         SendTx marketA ''buy'' [Big 0, Big 10, Big 105]])"
    using buy [where self = "exampleChain 7 100 5" and e = "TransactionFailure ''buy''"
                 and approval = "exampleReceipt ''approve'' [Addr marketA, Big 10]"
                 and l = "\<lparr>event = ''Approval'', args = []\<rparr>",
               THEN conjunct2]
    by (simp add: exampleChain_def buySteps_def example_approval)
  have "normalizeWeb3Args [JObject [(''event'', JContract eventA)]]
          \<lparr>methodName = ''createMarket'', functionInputs = ?abi,
           argAliases = [(''event'', ''eventContract'')]\<rparr>
        = Inl (ArgumentError ''createMarket'')"
    by (simp add: normalizeWeb3Args_def resolveNames_def resolveAlias_def address_defs)
  then have creation: "createMarket (exampleChain 0 100 5) factoryA ?abi
      [JObject [(''event'', JContract eventA)]] = (Inl (ArgumentError ''createMarket''), [])"
    using failure_aborts_remaining_steps
      [where arguments = "[JObject [(''event'', JContract eventA)]]"
         and err = "ArgumentError ''createMarket''" and self = "exampleChain 0 100 5"
         and callerABI = ?abi and marketFactory = factoryA,
       THEN conjunct2, THEN conjunct2, THEN conjunct2, THEN conjunct1]
    by simp
  from malformed lookup pricing approval token approve main creation show ?thesis
    by simp
qed

end
